theory Spec2Isabelle
  imports Complex_Main
begin

section \<open>The marketplace backend: data model\<close>

text \<open>
  The service of \<^verbatim>\<open>backend/main.py\<close> keeps all its state in a remote relational
  store and reaches it through a table/query client. The store is modelled as a record
  of tables, each table the list of its rows in the order the store returns them; an
  endpoint is a function from the store (and the request) to a response or an HTTP error,
  together with the store it leaves behind. A request runs alone, one call after the
  other, as the handler is written.

  User rows are Python dictionaries whose keys the handlers test and delete, so a user
  row is a finite map from column names to values; every column of the users table is
  text or null. The rows of the other tables are records of the columns the handlers read
  or write; the timestamp columns \<^verbatim>\<open>updated_at\<close> (and \<^verbatim>\<open>created_at\<close> outside
  orders), which no handler reads back, are left out, and the two free-form JSON columns
  of an order are kept as their text. Identifiers
  come from \<^verbatim>\<open>uuid.uuid4()\<close>: a handler takes the sequence \<open>uuid4 0, uuid4 1, \<dots>\<close> of
  the values its calls return, in call order. The clock is read as one instant \<open>now\<close>
  per request.
\<close>

datatype json = JNull | JStr string

text \<open>
  Prices and totals are JSON numbers, which a handler holds as a Python int or a Python
  float. Python adds and multiplies ints exactly and rounds when an operand is a float;
  the model takes the two operations the handlers apply to numbers, \<^verbatim>\<open>+\<close> and
  \<^verbatim>\<open>*\<close>, as parameters (\<open>py_add\<close> and \<open>py_mul\<close>) and assumes nothing about them.
  Every sum is formed in the order the code forms it.
\<close>

datatype number = PyInt int | PyFloat real

record arithmetic =
  py_add :: "number \<Rightarrow> number \<Rightarrow> number"
  py_mul :: "number \<Rightarrow> number \<Rightarrow> number"

type_synonym row = "string \<rightharpoonup> json"

record product =
  p_id :: string
  p_farmer_id :: string
  p_name :: string
  p_category :: string
  p_price :: number
  p_description :: "string option"
  p_quantity :: int
  p_unit :: "string option"
  p_images :: "string list"
  p_status :: string

record cart =
  c_id :: string
  c_user_id :: string
  c_total :: number

record cart_item =
  ci_id :: string
  ci_cart_id :: string
  ci_product_id :: string
  ci_quantity :: int
  ci_price :: number

record order =
  o_id :: string
  o_buyer_id :: string
  o_farmer_id :: string
  o_total_amount :: number
  o_status :: string
  o_shipping_address :: "string option"
  o_delivery_address :: "string option"
  o_delivery_notes :: "string option"
  o_phone_number :: "string option"
  o_payment_info :: "string option"
  o_created_at :: nat

record order_item =
  oi_id :: string
  oi_order_id :: string
  oi_product_id :: string
  oi_quantity :: int
  oi_price :: number

record db =
  users :: "row list"
  products :: "product list"
  carts :: "cart list"
  cart_items :: "cart_item list"
  orders :: "order list"
  order_items :: "order_item list"

text \<open>
  \<^verbatim>\<open>HTTPException(status_code, detail)\<close>, and the 422 answer the framework gives when
  a \<^verbatim>\<open>Query(..., ge=, le=)\<close> bound of the signature is violated.
\<close>

datatype http_error = HTTPException int string | RequestValidationError

text \<open>
  The authenticated user as \<^verbatim>\<open>get_current_user\<close> resolves it: the row selected by
  its id, of which the handlers read \<^verbatim>\<open>current_user['id']\<close> and
  \<^verbatim>\<open>current_user.get('user_type')\<close>.
\<close>

record current_user =
  cu_id :: string
  cu_user_type :: "string option"

text \<open>Python truthiness of an optional string: \<^verbatim>\<open>None\<close> and \<^verbatim>\<open>""\<close> are false.\<close>

definition truthy :: "string option \<Rightarrow> bool" where
  "truthy v = (case v of None \<Rightarrow> False | Some x \<Rightarrow> x \<noteq> [])"

text \<open>
  \<^verbatim>\<open>query.range(start, end)\<close>: the rows at the 0-based offsets \<open>start\<close> to
  \<open>end\<close>, both included.
\<close>

definition range_rows :: "int \<Rightarrow> int \<Rightarrow> 'a list \<Rightarrow> 'a list" where
  "range_rows start end xs = take (nat (end - start + 1)) (drop (nat start) xs)"

section \<open>Catalog: listing\<close>

text \<open>
  \<^verbatim>\<open>get_products\<close> (lines 374-420). The filter is built twice by the handler, once
  for the page and once for the count, from the same three optional parameters. The
  store's \<^verbatim>\<open>ilike\<close> operator is a parameter: \<open>ilike text pattern\<close>. The embedded
  \<^verbatim>\<open>users(full_name, profile_image_url, farm_name, location)\<close> is the owning farmer's
  row cut down to these four columns.
\<close>

definition product_matches ::
  "(string \<Rightarrow> string \<Rightarrow> bool) \<Rightarrow> string option \<Rightarrow> string option \<Rightarrow> string option \<Rightarrow> product \<Rightarrow> bool" where
  "product_matches ilike category farmer_id search p =
     ((if truthy category then Some (p_category p) = category else True) \<and>
      (if truthy farmer_id then Some (p_farmer_id p) = farmer_id else True) \<and>
      (if truthy search then
         (case search of
            None \<Rightarrow> True
          | Some x \<Rightarrow>
              ilike (p_name p) (''%'' @ x @ ''%'') \<or>
              (case p_description p of
                 None \<Rightarrow> False
               | Some d \<Rightarrow> ilike d (''%'' @ x @ ''%'')))
       else True))"

definition user_by_id :: "db \<Rightarrow> string \<Rightarrow> row option" where
  "user_by_id s uid = find (\<lambda>u. u ''id'' = Some (JStr uid)) (users s)"

record product_view =
  pv_product :: product
  pv_users :: "row option"

definition farmer_columns :: "string set" where
  "farmer_columns = {''full_name'', ''profile_image_url'', ''farm_name'', ''location''}"

definition embed_farmer :: "db \<Rightarrow> product \<Rightarrow> product_view" where
  "embed_farmer s p =
     \<lparr>pv_product = p,
      pv_users = map_option (\<lambda>u. u |` farmer_columns) (user_by_id s (p_farmer_id p))\<rparr>"

record pagination =
  pg_page :: int
  pg_limit :: int
  pg_total :: int
  pg_pages :: int

record products_response =
  pr_products :: "product_view list"
  pr_pagination :: pagination

definition products_query ::
  "(string \<Rightarrow> string \<Rightarrow> bool) \<Rightarrow> db \<Rightarrow> string option \<Rightarrow> string option \<Rightarrow> string option \<Rightarrow>
     product list" where
  "products_query ilike s category farmer_id search =
     filter (product_matches ilike category farmer_id search) (products s)"

definition get_products ::
  "(string \<Rightarrow> string \<Rightarrow> bool) \<Rightarrow> db \<Rightarrow> string option \<Rightarrow> string option \<Rightarrow> string option \<Rightarrow>
     int \<Rightarrow> int \<Rightarrow> http_error + products_response" where
  "get_products ilike s category farmer_id search page limit =
     (if page < 1 \<or> limit < 1 \<or> 100 < limit then Inl RequestValidationError
      else
        let query = products_query ilike s category farmer_id search;
            start = (page - 1) * limit;
            page_rows = map (embed_farmer s) (range_rows start (start + limit - 1) query);
            count_query = products_query ilike s category farmer_id search;
            total_count = int (length count_query)
        in Inr \<lparr>pr_products = page_rows,
                pr_pagination =
                  \<lparr>pg_page = page, pg_limit = limit, pg_total = total_count,
                   pg_pages = (total_count + limit - 1) div limit\<rparr>\<rparr>)"


section \<open>Catalog: update and delete\<close>

text \<open>
  \<^verbatim>\<open>ProductUpdate\<close> with \<^verbatim>\<open>dict(exclude_unset=True)\<close>: a field the request does not
  set is absent from the update (\<open>None\<close> here). The two nullable columns can be set to
  null (\<open>Some None\<close>).
\<close>

record product_update =
  pu_name :: "string option"
  pu_category :: "string option"
  pu_price :: "number option"
  pu_description :: "string option option"
  pu_quantity :: "int option"
  pu_unit :: "string option option"
  pu_images :: "string list option"
  pu_status :: "string option"

definition set_field :: "'a option \<Rightarrow> 'a \<Rightarrow> 'a" where
  "set_field new old = (case new of None \<Rightarrow> old | Some v \<Rightarrow> v)"

definition apply_product_update :: "product_update \<Rightarrow> product \<Rightarrow> product" where
  "apply_product_update u p =
     p\<lparr>p_name := set_field (pu_name u) (p_name p),
       p_category := set_field (pu_category u) (p_category p),
       p_price := set_field (pu_price u) (p_price p),
       p_description := set_field (pu_description u) (p_description p),
       p_quantity := set_field (pu_quantity u) (p_quantity p),
       p_unit := set_field (pu_unit u) (p_unit p),
       p_images := set_field (pu_images u) (p_images p),
       p_status := set_field (pu_status u) (p_status p)\<rparr>"

text \<open>
  \<^verbatim>\<open>update_product\<close> (lines 473-499): the ownership check is the first select, on the
  product id and the acting user's id together; the update itself is by product id.
\<close>

definition update_product ::
  "db \<Rightarrow> string \<Rightarrow> product_update \<Rightarrow> current_user \<Rightarrow> (http_error + product) \<times> db" where
  "update_product s product_id product_data cu =
     (case filter (\<lambda>p. p_id p = product_id \<and> p_farmer_id p = cu_id cu) (products s) of
        [] \<Rightarrow> (Inl (HTTPException 404 ''Product not found or unauthorized''), s)
      | _ # _ \<Rightarrow>
          let s' = s\<lparr>products :=
                      map (\<lambda>p. if p_id p = product_id then apply_product_update product_data p else p)
                        (products s)\<rparr>
          in (case filter (\<lambda>p. p_id p = product_id) (products s') of
                [] \<Rightarrow> (Inl (HTTPException 500 ''Product update failed''), s')
              | p # _ \<Rightarrow> (Inr p, s')))"

text \<open>\<^verbatim>\<open>delete_product\<close> (lines 501-515); the answer of a success is its message.\<close>

definition delete_product :: "db \<Rightarrow> string \<Rightarrow> current_user \<Rightarrow> (http_error + string) \<times> db" where
  "delete_product s product_id cu =
     (case filter (\<lambda>p. p_id p = product_id \<and> p_farmer_id p = cu_id cu) (products s) of
        [] \<Rightarrow> (Inl (HTTPException 404 ''Product not found or unauthorized''), s)
      | _ # _ \<Rightarrow>
          (Inr ''Product deleted successfully'',
           s\<lparr>products := filter (\<lambda>p. p_id p \<noteq> product_id) (products s)\<rparr>))"

section \<open>Cart\<close>

text \<open>
  Python's \<^verbatim>\<open>sum\<close> starts from 0 and adds the elements from left to right.
\<close>

definition py_sum :: "arithmetic \<Rightarrow> number list \<Rightarrow> number" where
  "py_sum ar xs = foldl (py_add ar) (PyInt 0) xs"

definition cart_lines :: "db \<Rightarrow> string \<Rightarrow> cart_item list" where
  "cart_lines s cart_id = filter (\<lambda>i. ci_cart_id i = cart_id) (cart_items s)"

definition lines_total :: "arithmetic \<Rightarrow> cart_item list \<Rightarrow> number" where
  "lines_total ar data =
     py_sum ar (map (\<lambda>item. py_mul ar (ci_price item) (PyInt (ci_quantity item))) data)"

definition set_cart_total :: "string \<Rightarrow> number \<Rightarrow> db \<Rightarrow> db" where
  "set_cart_total cart_id new_total s =
     s\<lparr>carts := map (\<lambda>c. if c_id c = cart_id then c\<lparr>c_total := new_total\<rparr> else c) (carts s)\<rparr>"

text \<open>
  \<^verbatim>\<open>upsert(item_obj, on_conflict='cart_id,product_id')\<close>: a row with the same cart and
  product is overwritten with the new row, otherwise the row is inserted.
\<close>

definition conflicts :: "cart_item \<Rightarrow> cart_item \<Rightarrow> bool" where
  "conflicts a b = (ci_cart_id a = ci_cart_id b \<and> ci_product_id a = ci_product_id b)"

definition upsert_cart_item :: "cart_item \<Rightarrow> cart_item list \<Rightarrow> cart_item list" where
  "upsert_cart_item item_obj rows =
     (if filter (conflicts item_obj) rows = [] then rows @ [item_obj]
      else map (\<lambda>r. if conflicts item_obj r then item_obj else r) rows)"

record cart_item_add =
  cia_product_id :: string
  cia_quantity :: int

text \<open>
  \<^verbatim>\<open>add_to_cart\<close> (lines 788-835). A user without a cart gets one first, and keeps it
  when the product turns out not to exist.
\<close>

definition add_to_cart ::
  "arithmetic \<Rightarrow> (nat \<Rightarrow> string) \<Rightarrow> db \<Rightarrow> cart_item_add \<Rightarrow> current_user \<Rightarrow>
     (http_error + string) \<times> db" where
  "add_to_cart ar uuid4 s cart_item cu =
     (let cart_response = filter (\<lambda>c. c_user_id c = cu_id cu) (carts s);
          cart_id = (case cart_response of [] \<Rightarrow> uuid4 0 | c # _ \<Rightarrow> c_id c);
          item_id = (case cart_response of [] \<Rightarrow> uuid4 1 | c # _ \<Rightarrow> uuid4 0);
          s1 = (case cart_response of
                  [] \<Rightarrow> s\<lparr>carts := carts s @ [\<lparr>c_id = cart_id, c_user_id = cu_id cu, c_total = PyInt 0\<rparr>]\<rparr>
                | c # _ \<Rightarrow> s)
      in case filter (\<lambda>p. p_id p = cia_product_id cart_item) (products s1) of
           [] \<Rightarrow> (Inl (HTTPException 404 ''Product not found''), s1)
         | product # _ \<Rightarrow>
             let product_price = p_price product;
                 item_obj = \<lparr>ci_id = item_id, ci_cart_id = cart_id,
                             ci_product_id = cia_product_id cart_item,
                             ci_quantity = cia_quantity cart_item, ci_price = product_price\<rparr>;
                 s2 = s1\<lparr>cart_items := upsert_cart_item item_obj (cart_items s1)\<rparr>;
                 new_total = lines_total ar (cart_lines s2 cart_id)
             in (Inr ''Item added to cart successfully'', set_cart_total cart_id new_total s2))"




section \<open>Orders\<close>

text \<open>
  The item dictionaries of an order: those of the request body of \<^verbatim>\<open>create_order\<close>
  (taken with their three keys present) and those \<^verbatim>\<open>checkout_order\<close> builds.
\<close>

record item_entry =
  ie_product_id :: string
  ie_quantity :: int
  ie_price :: number

text \<open>
  The inventory write both handlers make for an item (lines 626-629 and 707-710): the
  quantity is read from the first row with the product's id, the difference is written to
  the rows with that id. \<^verbatim>\<open>data[0]\<close> on an empty result raises \<^verbatim>\<open>IndexError\<close>,
  which the handler turns into a 500 whose detail is the exception's text.
\<close>

definition decrement_quantity :: "db \<Rightarrow> string \<Rightarrow> int \<Rightarrow> http_error + db" where
  "decrement_quantity s product_id n =
     (case filter (\<lambda>p. p_id p = product_id) (products s) of
        [] \<Rightarrow> Inl (HTTPException 500 ''list index out of range'')
      | p # _ \<Rightarrow>
          Inr (s\<lparr>products :=
                   map (\<lambda>r. if p_id r = product_id then r\<lparr>p_quantity := p_quantity p - n\<rparr> else r)
                     (products s)\<rparr>))"

text \<open>
  The loop over the items of one order (lines 615-629 and 696-710): each round builds the
  order item and writes the inventory; the rows are inserted after the loop, so a failing
  round leaves the earlier inventory writes and no order item.
\<close>

fun order_items_loop ::
  "(nat \<Rightarrow> string) \<Rightarrow> string \<Rightarrow> item_entry list \<Rightarrow> order_item list \<Rightarrow> db \<Rightarrow>
     (http_error + order_item list) \<times> db" where
  "order_items_loop uuid4 order_id [] acc s = (Inr acc, s)"
| "order_items_loop uuid4 order_id (item # rest) acc s =
     (let item_obj = \<lparr>oi_id = uuid4 0, oi_order_id = order_id,
                      oi_product_id = ie_product_id item, oi_quantity = ie_quantity item,
                      oi_price = ie_price item\<rparr>
      in case decrement_quantity s (ie_product_id item) (ie_quantity item) of
           Inl e \<Rightarrow> (Inl e, s)
         | Inr s' \<Rightarrow> order_items_loop (\<lambda>k. uuid4 (Suc k)) order_id rest (acc @ [item_obj]) s')"

definition insert_order_items :: "order_item list \<Rightarrow> db \<Rightarrow> db" where
  "insert_order_items rows s = (if rows = [] then s else s\<lparr>order_items := order_items s @ rows\<rparr>)"

record order_create =
  oc_farmer_id :: string
  oc_total_amount :: number
  oc_shipping_address :: "string option"
  oc_delivery_address :: "string option"
  oc_delivery_notes :: "string option"
  oc_phone_number :: "string option"
  oc_payment_info :: "string option"
  oc_items :: "item_entry list"

text \<open>
  \<^verbatim>\<open>create_order\<close> (lines 586-642). The insert returns the inserted row, which is the
  order of the answer.
\<close>

definition create_order ::
  "(nat \<Rightarrow> string) \<Rightarrow> nat \<Rightarrow> db \<Rightarrow> order_create \<Rightarrow> current_user \<Rightarrow> (http_error + order) \<times> db" where
  "create_order uuid4 now s order_data cu =
     (let order_id = uuid4 0;
          order_obj = \<lparr>o_id = order_id, o_buyer_id = cu_id cu, o_farmer_id = oc_farmer_id order_data,
                       o_total_amount = oc_total_amount order_data, o_status = ''pending'',
                       o_shipping_address = oc_shipping_address order_data,
                       o_delivery_address = oc_delivery_address order_data,
                       o_delivery_notes = oc_delivery_notes order_data,
                       o_phone_number = oc_phone_number order_data,
                       o_payment_info = oc_payment_info order_data, o_created_at = now\<rparr>;
          s1 = s\<lparr>orders := orders s @ [order_obj]\<rparr>
      in case order_items_loop (\<lambda>k. uuid4 (Suc k)) order_id (oc_items order_data) [] s1 of
           (Inl e, s2) \<Rightarrow> (Inl e, s2)
         | (Inr rows, s2) \<Rightarrow> (Inr order_obj, insert_order_items rows s2))"

section \<open>Checkout\<close>

record checkout_data =
  cd_delivery_address :: string
  cd_delivery_notes :: "string option"
  cd_phone_number :: string

text \<open>
  \<^verbatim>\<open>cart_items(*, products(*))\<close>: the lines of the cart, each with the product its
  \<^verbatim>\<open>product_id\<close> refers to, or null.
\<close>

definition joined_cart_items :: "db \<Rightarrow> string \<Rightarrow> (cart_item \<times> product option) list" where
  "joined_cart_items s cart_id =
     map (\<lambda>i. (i, find (\<lambda>p. p_id p = ci_product_id i) (products s))) (cart_lines s cart_id)"

text \<open>
  \<^verbatim>\<open>farmer_orders\<close>: a dictionary in insertion order, from farmer id to the items and
  the running total of that farmer.
\<close>

record farmer_group =
  fg_items :: "item_entry list"
  fg_total_amount :: number

fun farmer_orders_add ::
  "arithmetic \<Rightarrow> string \<Rightarrow> item_entry \<Rightarrow> number \<Rightarrow> (string \<times> farmer_group) list \<Rightarrow>
     (string \<times> farmer_group) list" where
  "farmer_orders_add ar farmer_id entry amount [] =
     [(farmer_id, \<lparr>fg_items = [entry], fg_total_amount = py_add ar (PyInt 0) amount\<rparr>)]"
| "farmer_orders_add ar farmer_id entry amount ((k, g) # rest) =
     (if k = farmer_id
      then (k, \<lparr>fg_items = fg_items g @ [entry],
                fg_total_amount = py_add ar (fg_total_amount g) amount\<rparr>) # rest
      else (k, g) # farmer_orders_add ar farmer_id entry amount rest)"

text \<open>
  Subscripting the null product of a dangling line raises \<^verbatim>\<open>TypeError\<close>; its text is
  the detail of the 500.
\<close>

definition none_not_subscriptable :: string where
  "none_not_subscriptable =
     [CHR 0x27] @ ''NoneType'' @ [CHR 0x27] @ '' object is not subscriptable''"

fun group_by_farmer ::
  "arithmetic \<Rightarrow> (cart_item \<times> product option) list \<Rightarrow> (string \<times> farmer_group) list \<Rightarrow>
     http_error + (string \<times> farmer_group) list" where
  "group_by_farmer ar [] farmer_orders = Inr farmer_orders"
| "group_by_farmer ar ((item, None) # rest) farmer_orders =
     Inl (HTTPException 500 none_not_subscriptable)"
| "group_by_farmer ar ((item, Some product) # rest) farmer_orders =
     group_by_farmer ar rest
       (farmer_orders_add ar (p_farmer_id product)
          \<lparr>ie_product_id = p_id product, ie_quantity = ci_quantity item, ie_price = p_price product\<rparr>
          (py_mul ar (p_price product) (PyInt (ci_quantity item))) farmer_orders)"

text \<open>The loop over the farmers (lines 677-715).\<close>

fun create_farmer_orders ::
  "(nat \<Rightarrow> string) \<Rightarrow> nat \<Rightarrow> checkout_data \<Rightarrow> current_user \<Rightarrow> (string \<times> farmer_group) list \<Rightarrow>
     order list \<Rightarrow> db \<Rightarrow> (http_error + order list) \<times> db" where
  "create_farmer_orders uuid4 now cd cu [] created_orders s = (Inr created_orders, s)"
| "create_farmer_orders uuid4 now cd cu ((farmer_id, order_data) # rest) created_orders s =
     (let order_id = uuid4 0;
          order_obj = \<lparr>o_id = order_id, o_buyer_id = cu_id cu, o_farmer_id = farmer_id,
                       o_total_amount = fg_total_amount order_data, o_status = ''pending'',
                       o_shipping_address = None,
                       o_delivery_address = Some (cd_delivery_address cd),
                       o_delivery_notes = cd_delivery_notes cd,
                       o_phone_number = Some (cd_phone_number cd),
                       o_payment_info = None, o_created_at = now\<rparr>;
          s1 = s\<lparr>orders := orders s @ [order_obj]\<rparr>
      in case order_items_loop (\<lambda>k. uuid4 (Suc k)) order_id (fg_items order_data) [] s1 of
           (Inl e, s2) \<Rightarrow> (Inl e, s2)
         | (Inr rows, s2) \<Rightarrow>
             create_farmer_orders (\<lambda>k. uuid4 (Suc (length (fg_items order_data)) + k)) now cd cu rest
               (created_orders @ [order_obj]) (insert_order_items rows s2))"

text \<open>\<^verbatim>\<open>checkout_order\<close> (lines 644-728).\<close>

definition checkout_order ::
  "arithmetic \<Rightarrow> (nat \<Rightarrow> string) \<Rightarrow> nat \<Rightarrow> db \<Rightarrow> checkout_data \<Rightarrow> string \<Rightarrow> current_user \<Rightarrow>
     (http_error + order list) \<times> db" where
  "checkout_order ar uuid4 now s cd cart_id cu =
     (case filter (\<lambda>c. c_id c = cart_id \<and> c_user_id c = cu_id cu) (carts s) of
        [] \<Rightarrow> (Inl (HTTPException 404 ''Cart not found''), s)
      | cart # _ \<Rightarrow>
          (case joined_cart_items s (c_id cart) of
             [] \<Rightarrow> (Inl (HTTPException 400 ''Cart is empty''), s)
           | item # items \<Rightarrow>
               (case group_by_farmer ar (item # items) [] of
                  Inl e \<Rightarrow> (Inl e, s)
                | Inr farmer_orders \<Rightarrow>
                    (case create_farmer_orders uuid4 now cd cu farmer_orders [] s of
                       (Inl e, s1) \<Rightarrow> (Inl e, s1)
                     | (Inr created_orders, s1) \<Rightarrow>
                         (Inr created_orders,
                          set_cart_total cart_id (PyInt 0)
                            (s1\<lparr>cart_items :=
                                  filter (\<lambda>i. ci_cart_id i \<noteq> cart_id) (cart_items s1)\<rparr>))))))"


section \<open>Authentication\<close>

text \<open>
  The process configuration: the two secrets read from the environment, and the two
  library functions the credential code calls, \<^verbatim>\<open>hashlib.sha256(...).hexdigest()\<close> and
  \<^verbatim>\<open>jwt.encode\<close> with the configured key and algorithm.
\<close>

record token_claims =
  tk_sub :: json
  tk_email :: json
  tk_user_type :: json
  tk_exp :: nat

record config =
  SECRET_KEY :: string
  PASSWORD_SALT :: string
  sha256_hexdigest :: "string \<Rightarrow> string"
  jwt_encode :: "token_claims \<Rightarrow> string"

definition get_password_hash :: "config \<Rightarrow> string \<Rightarrow> string" where
  "get_password_hash cfg password =
     sha256_hexdigest cfg (password @ PASSWORD_SALT cfg @ SECRET_KEY cfg)"

text \<open>
  \<^verbatim>\<open>verify_password\<close>: the digest of the password is a string, so it equals the stored
  value only when that is the same string; a null is different from every string.
\<close>

definition verify_password :: "config \<Rightarrow> string \<Rightarrow> json \<Rightarrow> bool" where
  "verify_password cfg plain_password hashed_password =
     (JStr (get_password_hash cfg plain_password) = hashed_password)"

text \<open>\<^verbatim>\<open>create_access_token\<close>: the claims with an expiry seven days (in seconds) ahead.\<close>

definition create_access_token :: "config \<Rightarrow> nat \<Rightarrow> json \<Rightarrow> json \<Rightarrow> json \<Rightarrow> string" where
  "create_access_token cfg now sub email user_type =
     jwt_encode cfg \<lparr>tk_sub = sub, tk_email = email, tk_user_type = user_type,
                     tk_exp = now + 7 * 24 * 60 * 60\<rparr>"

text \<open>
  The display name every user answer carries. \<^verbatim>\<open>user.get(k)\<close> is null for a missing
  key; an f-string prints null as \<^verbatim>\<open>None\<close>; \<^verbatim>\<open>strip()\<close> removes the white space at
  both ends (the ASCII white space here).
\<close>

definition json_truthy :: "json option \<Rightarrow> bool" where
  "json_truthy v = (case v of None \<Rightarrow> False | Some JNull \<Rightarrow> False | Some (JStr x) \<Rightarrow> x \<noteq> [])"

definition format_json :: "json \<Rightarrow> string" where
  "format_json v = (case v of JNull \<Rightarrow> ''None'' | JStr x \<Rightarrow> x)"

definition get_or :: "row \<Rightarrow> string \<Rightarrow> json \<Rightarrow> json" where
  "get_or user k d = (case user k of None \<Rightarrow> d | Some v \<Rightarrow> v)"

definition is_space :: "char \<Rightarrow> bool" where
  "is_space c = (let n = (of_char c :: nat) in (9 \<le> n \<and> n \<le> 13) \<or> (28 \<le> n \<and> n \<le> 32))"

definition strip :: "string \<Rightarrow> string" where
  "strip x = rev (dropWhile is_space (rev (dropWhile is_space x)))"

definition with_full_name :: "row \<Rightarrow> row" where
  "with_full_name user =
     (if json_truthy (user ''first_name'') \<or> json_truthy (user ''last_name'')
      then user(''full_name'' \<mapsto>
             JStr (strip (format_json (get_or user ''first_name'' (JStr [])) @ '' '' @
                          format_json (get_or user ''last_name'' (JStr [])))))
      else user(''full_name'' \<mapsto>
             get_or user ''username'' (get_or user ''email'' (JStr ''User''))))"

text \<open>\<^verbatim>\<open>str(KeyError(k))\<close> is the key in quotes.\<close>

definition key_error :: "string \<Rightarrow> string \<Rightarrow> http_error" where
  "key_error prefix k = HTTPException 500 (prefix @ [CHR 0x27] @ k @ [CHR 0x27])"

record user_login =
  ul_email :: string
  ul_password :: string

record login_response =
  lr_message :: string
  lr_user :: row
  lr_token :: string

text \<open>
  \<^verbatim>\<open>login_user\<close> (lines 259-296). A row without the key \<^verbatim>\<open>password_hash\<close> gets the
  digest of the supplied password written to the store before the check.
\<close>

definition backfill_password_hash ::
  "config \<Rightarrow> db \<Rightarrow> row \<Rightarrow> string \<Rightarrow> http_error + (row \<times> db)" where
  "backfill_password_hash cfg s user password =
     (if ''password_hash'' \<in> dom user then Inr (user, s)
      else
        let hashed_password = get_password_hash cfg password
        in case user ''id'' of
             None \<Rightarrow> Inl (key_error ''Login error: '' ''id'')
           | Some uid \<Rightarrow>
               Inr (user(''password_hash'' \<mapsto> JStr hashed_password),
                    s\<lparr>users :=
                        map (\<lambda>u. if u ''id'' = Some uid
                                  then u(''password_hash'' \<mapsto> JStr hashed_password) else u)
                          (users s)\<rparr>))"

definition login_user ::
  "config \<Rightarrow> nat \<Rightarrow> db \<Rightarrow> user_login \<Rightarrow> (http_error + login_response) \<times> db" where
  "login_user cfg now s login_data =
     (case filter (\<lambda>u. u ''email'' = Some (JStr (ul_email login_data))) (users s) of
        [] \<Rightarrow> (Inl (HTTPException 401 ''Invalid email or password''), s)
      | row0 # _ \<Rightarrow>
          (case backfill_password_hash cfg s row0 (ul_password login_data) of
             Inl e \<Rightarrow> (Inl e, s)
           | Inr (user, s1) \<Rightarrow>
               if \<not> verify_password cfg (ul_password login_data)
                      (get_or user ''password_hash'' (JStr []))
               then (Inl (HTTPException 401 ''Invalid email or password''), s1)
               else
                 (case user ''id'' of
                    None \<Rightarrow> (Inl (key_error ''Login error: '' ''id''), s1)
                  | Some uid \<Rightarrow>
                      (case user ''email'' of
                         None \<Rightarrow> (Inl (key_error ''Login error: '' ''email''), s1)
                       | Some email \<Rightarrow>
                           (case user ''user_type'' of
                              None \<Rightarrow> (Inl (key_error ''Login error: '' ''user_type''), s1)
                            | Some user_type \<Rightarrow>
                                (Inr \<lparr>lr_message = ''Login successful'',
                                      lr_user = with_full_name (user(''password_hash'' := None)),
                                      lr_token = create_access_token cfg now uid email user_type\<rparr>,
                                 s1))))))"

section \<open>Order listing\<close>

text \<open>
  \<^verbatim>\<open>get_orders\<close> (lines 527-560). The select embeds, in every order, its items with
  their products and, under \<^verbatim>\<open>users!orders_buyer_id_fkey(*)\<close>, the buyer's row with all
  its columns. The orders come newest first; rows of the same instant are taken in the
  reverse of their table order.
\<close>

record order_item_view =
  oiv_item :: order_item
  oiv_products :: "product option"

record order_view =
  ov_order :: order
  ov_order_items :: "order_item_view list"
  ov_users :: "row option"

definition embed_order :: "db \<Rightarrow> order \<Rightarrow> order_view" where
  "embed_order s ord =
     \<lparr>ov_order = ord,
      ov_order_items =
        map (\<lambda>i. \<lparr>oiv_item = i, oiv_products = find (\<lambda>p. p_id p = oi_product_id i) (products s)\<rparr>)
          (filter (\<lambda>i. oi_order_id i = o_id ord) (order_items s)),
      ov_users = user_by_id s (o_buyer_id ord)\<rparr>"

record orders_pagination =
  op_page :: int
  op_limit :: int
  op_total :: int

record orders_response =
  or_orders :: "order_view list"
  or_pagination :: orders_pagination

definition get_orders ::
  "db \<Rightarrow> string option \<Rightarrow> int \<Rightarrow> int \<Rightarrow> current_user \<Rightarrow> http_error + orders_response" where
  "get_orders s status page limit cu =
     (if page < 1 \<or> limit < 1 \<or> 100 < limit then Inl RequestValidationError
      else
        let q0 = orders s;
            q1 = (if truthy status then filter (\<lambda>ord. Some (o_status ord) = status) q0 else q0);
            q2 = (if cu_user_type cu = Some ''farmer''
                  then filter (\<lambda>ord. o_farmer_id ord = cu_id cu) q1
                  else if cu_user_type cu = Some ''buyer''
                  then filter (\<lambda>ord. o_buyer_id ord = cu_id cu) q1
                  else q1);
            start = (page - 1) * limit;
            data = map (embed_order s)
                     (range_rows start (start + limit - 1) (rev (sort_key o_created_at q2)))
        in Inr \<lparr>or_orders = data,
                or_pagination =
                  \<lparr>op_page = page, op_limit = limit, op_total = int (length data)\<rparr>\<rparr>)"


section \<open>Closed forms of the order loops\<close>

text \<open>
  What the loops of the two order handlers compute when no round fails, written as
  functions of their inputs; the proofs below relate the loops to them.
  \<open>dec_step\<close> is the inventory write of one item on the products table, \<open>dec_products\<close>
  the writes of a list of items in turn, \<open>rows_for\<close> the order items of one order and
  \<open>planned_orders\<close> the orders of a checkout with their items.
\<close>

definition dec_step :: "string \<Rightarrow> int \<Rightarrow> product list \<Rightarrow> product list" where
  "dec_step product_id n ps =
     (case filter (\<lambda>p. p_id p = product_id) ps of
        [] \<Rightarrow> ps
      | p # _ \<Rightarrow> map (\<lambda>r. if p_id r = product_id then r\<lparr>p_quantity := p_quantity p - n\<rparr> else r) ps)"

fun dec_products :: "item_entry list \<Rightarrow> product list \<Rightarrow> product list" where
  "dec_products [] ps = ps"
| "dec_products (item # rest) ps =
     dec_products rest (dec_step (ie_product_id item) (ie_quantity item) ps)"

fun rows_for :: "(nat \<Rightarrow> string) \<Rightarrow> string \<Rightarrow> item_entry list \<Rightarrow> order_item list" where
  "rows_for uuid4 order_id [] = []"
| "rows_for uuid4 order_id (item # rest) =
     \<lparr>oi_id = uuid4 0, oi_order_id = order_id, oi_product_id = ie_product_id item,
      oi_quantity = ie_quantity item, oi_price = ie_price item\<rparr>
     # rows_for (\<lambda>k. uuid4 (Suc k)) order_id rest"

fun planned_orders ::
  "(nat \<Rightarrow> string) \<Rightarrow> nat \<Rightarrow> checkout_data \<Rightarrow> current_user \<Rightarrow> (string \<times> farmer_group) list \<Rightarrow>
     (order \<times> order_item list) list" where
  "planned_orders uuid4 now cd cu [] = []"
| "planned_orders uuid4 now cd cu ((farmer_id, order_data) # rest) =
     (\<lparr>o_id = uuid4 0, o_buyer_id = cu_id cu, o_farmer_id = farmer_id,
       o_total_amount = fg_total_amount order_data, o_status = ''pending'',
       o_shipping_address = None,
       o_delivery_address = Some (cd_delivery_address cd),
       o_delivery_notes = cd_delivery_notes cd,
       o_phone_number = Some (cd_phone_number cd),
       o_payment_info = None, o_created_at = now\<rparr>,
      rows_for (\<lambda>k. uuid4 (Suc k)) (uuid4 0) (fg_items order_data))
     # planned_orders (\<lambda>k. uuid4 (Suc (length (fg_items order_data)) + k)) now cd cu rest"

text \<open>
  A cart line with its product, as the grouping loop of the checkout reads it: the entry
  it appends, the amount it adds, and what the dictionary of the loop holds once the
  lines \<open>pre\<close> have been read.
\<close>

definition line_entry :: "cart_item \<times> product \<Rightarrow> item_entry" where
  "line_entry l =
     \<lparr>ie_product_id = p_id (snd l), ie_quantity = ci_quantity (fst l), ie_price = p_price (snd l)\<rparr>"

definition line_amount :: "arithmetic \<Rightarrow> cart_item \<times> product \<Rightarrow> number" where
  "line_amount ar l = py_mul ar (p_price (snd l)) (PyInt (ci_quantity (fst l)))"

definition line_farmer :: "cart_item \<times> product \<Rightarrow> string" where
  "line_farmer l = p_farmer_id (snd l)"

definition grouped ::
  "arithmetic \<Rightarrow> (string \<times> farmer_group) list \<Rightarrow> (cart_item \<times> product) list \<Rightarrow> bool" where
  "grouped ar acc pre =
     (distinct (map fst acc) \<and> set (map fst acc) = line_farmer ` set pre \<and>
      (\<forall>f g. map_of acc f = Some g \<longrightarrow>
         fg_items g = map line_entry (filter (\<lambda>l. line_farmer l = f) pre) \<and>
         fg_total_amount g =
           py_sum ar (map (line_amount ar) (filter (\<lambda>l. line_farmer l = f) pre))))"

section \<open>Sample stores\<close>

text \<open>Concrete stores and requests on which the properties below are run.\<close>

text \<open>
  The stores below hold int prices only, on which Python's arithmetic is exact:
  \<open>exact_arithmetic\<close> adds and multiplies ints as Python does, and a float operand
  (none occurs) by its value.
\<close>

definition number_value :: "number \<Rightarrow> real" where
  "number_value a = (case a of PyInt x \<Rightarrow> of_int x | PyFloat x \<Rightarrow> x)"

definition exact_arithmetic :: arithmetic where
  "exact_arithmetic =
     \<lparr>py_add = (\<lambda>a b. case (a, b) of
                        (PyInt x, PyInt y) \<Rightarrow> PyInt (x + y)
                      | _ \<Rightarrow> PyFloat (number_value a + number_value b)),
      py_mul = (\<lambda>a b. case (a, b) of
                        (PyInt x, PyInt y) \<Rightarrow> PyInt (x * y)
                      | _ \<Rightarrow> PyFloat (number_value a * number_value b))\<rparr>"

definition no_users_db :: db where
  "no_users_db = \<lparr>users = [], products = [], carts = [], cart_items = [], orders = [], order_items = []\<rparr>"

definition sample_product :: "nat \<Rightarrow> product" where
  "sample_product n =
     \<lparr>p_id = ''p-'' @ replicate n (CHR ''i''), p_farmer_id = ''farmer-1'',
      p_name = ''crop '' @ replicate n (CHR ''i''),
      p_category = (if n mod 6 = 5 then ''fruit'' else ''grain''),
      p_price = PyInt 2, p_description = None, p_quantity = 10, p_unit = Some ''kg'',
      p_images = [], p_status = ''active''\<rparr>"

definition catalog_db :: db where
  "catalog_db = no_users_db\<lparr>products := map sample_product [0..<30]\<rparr>"

definition tomato :: product where
  "tomato = \<lparr>p_id = ''prod-tomato'', p_farmer_id = ''farmer-1'', p_name = ''Tomato'',
     p_category = ''vegetable'', p_price = PyInt 3, p_description = Some ''Fresh tomatoes'',
     p_quantity = 10, p_unit = Some ''kg'', p_images = [], p_status = ''active''\<rparr>"

definition maize :: product where
  "maize = \<lparr>p_id = ''prod-maize'', p_farmer_id = ''farmer-2'', p_name = ''Maize'',
     p_category = ''grain'', p_price = PyInt 5, p_description = None,
     p_quantity = 4, p_unit = Some ''kg'', p_images = [], p_status = ''active''\<rparr>"

definition beans :: product where
  "beans = \<lparr>p_id = ''prod-beans'', p_farmer_id = ''farmer-1'', p_name = ''Beans'',
     p_category = ''legume'', p_price = PyInt 2, p_description = None,
     p_quantity = 1, p_unit = Some ''kg'', p_images = [], p_status = ''active''\<rparr>"

definition ann_row :: row where
  "ann_row = [''id'' \<mapsto> JStr ''buyer-1'', ''username'' \<mapsto> JStr ''ann'',
     ''email'' \<mapsto> JStr ''ann@example.org'', ''password_hash'' \<mapsto> JStr ''digest-ann'',
     ''first_name'' \<mapsto> JStr ''Ann'', ''last_name'' \<mapsto> JNull, ''user_type'' \<mapsto> JStr ''buyer'']"

text \<open>
  A store with three products of two farmers and the cart of buyer Ann: two tomatoes added
  when the tomato cost 2 (it costs 3 now), one maize, three beans. The stored total of the
  cart is stale. A second buyer has an empty cart.
\<close>

definition market_db :: db where
  "market_db =
     \<lparr>users = [ann_row],
      products = [tomato, maize, beans],
      carts = [\<lparr>c_id = ''cart-1'', c_user_id = ''buyer-1'', c_total = PyInt 99\<rparr>,
               \<lparr>c_id = ''cart-2'', c_user_id = ''buyer-2'', c_total = PyInt 0\<rparr>],
      cart_items =
        [\<lparr>ci_id = ''line-1'', ci_cart_id = ''cart-1'', ci_product_id = ''prod-tomato'',
          ci_quantity = 2, ci_price = PyInt 2\<rparr>,
         \<lparr>ci_id = ''line-2'', ci_cart_id = ''cart-1'', ci_product_id = ''prod-maize'',
          ci_quantity = 1, ci_price = PyInt 5\<rparr>,
         \<lparr>ci_id = ''line-3'', ci_cart_id = ''cart-1'', ci_product_id = ''prod-beans'',
          ci_quantity = 3, ci_price = PyInt 2\<rparr>],
      orders = [], order_items = []\<rparr>"

definition ann :: current_user where
  "ann = \<lparr>cu_id = ''buyer-1'', cu_user_type = Some ''buyer''\<rparr>"

definition bob :: current_user where
  "bob = \<lparr>cu_id = ''buyer-2'', cu_user_type = Some ''buyer''\<rparr>"

definition farmer_two :: current_user where
  "farmer_two = \<lparr>cu_id = ''farmer-2'', cu_user_type = Some ''farmer''\<rparr>"

definition sample_uuid4 :: "nat \<Rightarrow> string" where
  "sample_uuid4 n = ''id-'' @ replicate n (CHR ''x'')"

definition sample_checkout :: checkout_data where
  "sample_checkout = \<lparr>cd_delivery_address = ''12 Market Road'', cd_delivery_notes = None,
     cd_phone_number = ''0700''\<rparr>"

definition rename_update :: product_update where
  "rename_update = \<lparr>pu_name = Some ''Tomatoes'', pu_category = None, pu_price = None,
     pu_description = None, pu_quantity = None, pu_unit = None, pu_images = None,
     pu_status = None\<rparr>"

definition five_tomatoes :: cart_item_add where
  "five_tomatoes = \<lparr>cia_product_id = ''prod-tomato'', cia_quantity = 5\<rparr>"

text \<open>
  A configuration whose digest function keeps the first three characters of its input,
  so that Ann's password \<^verbatim>\<open>ann-secret\<close> has the digest stored in her row.
\<close>

definition sample_config :: config where
  "sample_config = \<lparr>SECRET_KEY = ''key'', PASSWORD_SALT = ''salt'',
     sha256_hexdigest = (\<lambda>x. ''digest-'' @ take 3 x),
     jwt_encode = (\<lambda>claims. ''token-'' @ format_json (tk_sub claims))\<rparr>"

definition ann_login :: user_login where
  "ann_login = \<lparr>ul_email = ''ann@example.org'', ul_password = ''ann-secret''\<rparr>"

definition ann_wrong_login :: user_login where
  "ann_wrong_login = \<lparr>ul_email = ''ann@example.org'', ul_password = ''guess''\<rparr>"

definition stranger_login :: user_login where
  "stranger_login = \<lparr>ul_email = ''eve@example.org'', ul_password = ''ann-secret''\<rparr>"

definition grace_row :: row where
  "grace_row = [''id'' \<mapsto> JStr ''farmer-2'', ''username'' \<mapsto> JStr ''grace'',
     ''email'' \<mapsto> JStr ''grace@example.org'', ''password_hash'' \<mapsto> JStr ''digest-grace'',
     ''first_name'' \<mapsto> JStr ''Grace'', ''last_name'' \<mapsto> JNull, ''user_type'' \<mapsto> JStr ''farmer'']"

text \<open>
  The market after Ann ordered one maize from the second farmer, Grace, whose row is in
  the users table.
\<close>

definition ordered_db :: db where
  "ordered_db = market_db
     \<lparr>users := [ann_row, grace_row],
      orders := [\<lparr>o_id = ''order-1'', o_buyer_id = ''buyer-1'', o_farmer_id = ''farmer-2'',
                   o_total_amount = PyInt 5, o_status = ''pending'', o_shipping_address = None,
                   o_delivery_address = Some ''12 Market Road'', o_delivery_notes = None,
                   o_phone_number = Some ''0700'', o_payment_info = None, o_created_at = 1\<rparr>],
      order_items := [\<lparr>oi_id = ''item-1'', oi_order_id = ''order-1'',
                        oi_product_id = ''prod-maize'', oi_quantity = 1, oi_price = PyInt 5\<rparr>]\<rparr>"

text \<open>
  A direct order of Ann with the first farmer: the tomato twice, eleven in all where the
  store holds ten, and five beans where it holds one.
\<close>

definition ann_order :: order_create where
  "ann_order =
     \<lparr>oc_farmer_id = ''farmer-1'', oc_total_amount = PyInt 43, oc_shipping_address = None,
      oc_delivery_address = Some ''12 Market Road'', oc_delivery_notes = None,
      oc_phone_number = Some ''0700'', oc_payment_info = None,
      oc_items =
        [\<lparr>ie_product_id = ''prod-tomato'', ie_quantity = 4, ie_price = PyInt 3\<rparr>,
         \<lparr>ie_product_id = ''prod-beans'', ie_quantity = 5, ie_price = PyInt 2\<rparr>,
         \<lparr>ie_product_id = ''prod-tomato'', ie_quantity = 7, ie_price = PyInt 3\<rparr>]\<rparr>"

text \<open>The lines of Ann's cart, each with its product.\<close>

definition ann_lines :: "(cart_item \<times> product) list" where
  "ann_lines =
     [(\<lparr>ci_id = ''line-1'', ci_cart_id = ''cart-1'', ci_product_id = ''prod-tomato'',
        ci_quantity = 2, ci_price = PyInt 2\<rparr>, tomato),
      (\<lparr>ci_id = ''line-2'', ci_cart_id = ''cart-1'', ci_product_id = ''prod-maize'',
        ci_quantity = 1, ci_price = PyInt 5\<rparr>, maize),
      (\<lparr>ci_id = ''line-3'', ci_cart_id = ''cart-1'', ci_product_id = ''prod-beans'',
        ci_quantity = 3, ci_price = PyInt 2\<rparr>, beans)]"

section \<open>Properties\<close>

subsection \<open>Pagination of the product listing\<close>

lemma ceil_div_int:
  fixes a b :: int
  assumes b: "0 < b"
  shows "\<lceil>real_of_int a / real_of_int b\<rceil> = (a + b - 1) div b"
proof (rule ceiling_unique)
  define q where "q = (a + b - 1) div b"
  define r where "r = (a + b - 1) mod b"
  have m: "q * b + r = a + b - 1" unfolding q_def r_def by simp
  have r0: "0 \<le> r" and r1: "r < b"
    using b unfolding r_def by simp_all
  have e: "(q - 1) * b = q * b - b" by (simp add: algebra_simps)
  have lo: "(q - 1) * b < a" using m r0 e by linarith
  have hi: "a \<le> q * b" using m r0 r1 by linarith
  have "real_of_int ((q - 1) * b) < real_of_int a" using lo by linarith
  then show "real_of_int ((a + b - 1) div b) - 1 < real_of_int a / real_of_int b"
    using b unfolding q_def[symmetric] by (simp add: pos_less_divide_eq)
  have "real_of_int a \<le> real_of_int (q * b)" using hi by linarith
  then show "real_of_int a / real_of_int b \<le> real_of_int ((a + b - 1) div b)"
    using b unfolding q_def[symmetric] by (simp add: pos_divide_le_eq)
qed

lemma get_products_ok:
  assumes "1 \<le> page" "1 \<le> limit" "limit \<le> 100"
  shows "get_products ilike s category farmer_id search page limit =
     Inr \<lparr>pr_products =
            map (embed_farmer s)
              (take (nat limit)
                 (drop (nat ((page - 1) * limit)) (products_query ilike s category farmer_id search))),
          pr_pagination =
            \<lparr>pg_page = page, pg_limit = limit,
             pg_total = int (length (products_query ilike s category farmer_id search)),
             pg_pages =
               (int (length (products_query ilike s category farmer_id search)) + limit - 1) div limit\<rparr>\<rparr>"
  using assms by (simp add: get_products_def Let_def range_rows_def)

text \<open>
  Claim C9. A listing request whose page is below 1 or whose limit is outside 1..100 is
  refused. Otherwise the answer holds the rows of the filtered result at the offsets
  \<open>(page - 1) * limit\<close> to \<open>page * limit - 1\<close> (as many of them as exist), the total is the
  size of the filtered result and the page count is the ceiling of total / limit; page 2
  with limit 20 over 25 matching rows gives 5 rows and 2 pages.
\<close>

theorem get_products_pagination:
  "(page < 1 \<or> limit < 1 \<or> 100 < limit \<longrightarrow>
      get_products ilike s category farmer_id search page limit = Inl RequestValidationError) \<and>
   (1 \<le> page \<and> 1 \<le> limit \<and> limit \<le> 100 \<longrightarrow>
      (\<exists>r. get_products ilike s category farmer_id search page limit = Inr r \<and>
         pr_products r =
           map (embed_farmer s)
             (take (nat limit)
                (drop (nat ((page - 1) * limit)) (products_query ilike s category farmer_id search))) \<and>
         length (pr_products r) =
           min (nat limit)
             (length (products_query ilike s category farmer_id search) - nat ((page - 1) * limit)) \<and>
         (\<forall>i < length (pr_products r).
            pv_product (pr_products r ! i) =
              products_query ilike s category farmer_id search ! (nat ((page - 1) * limit) + i)) \<and>
         pg_page (pr_pagination r) = page \<and>
         pg_limit (pr_pagination r) = limit \<and>
         pg_total (pr_pagination r) = int (length (products_query ilike s category farmer_id search)) \<and>
         pg_pages (pr_pagination r) =
           \<lceil>real (length (products_query ilike s category farmer_id search)) / real_of_int limit\<rceil> \<and>
         (length (products_query ilike s category farmer_id search) = 25 \<and> page = 2 \<and> limit = 20 \<longrightarrow>
            length (pr_products r) = 5 \<and> pg_pages (pr_pagination r) = 2)))"
proof (intro conjI impI)
  assume "page < 1 \<or> limit < 1 \<or> 100 < limit"
  then show "get_products ilike s category farmer_id search page limit = Inl RequestValidationError"
    by (auto simp: get_products_def)
next
  let ?Q = "products_query ilike s category farmer_id search"
  let ?r = "\<lparr>pr_products = map (embed_farmer s) (take (nat limit) (drop (nat ((page - 1) * limit)) ?Q)),
          pr_pagination =
            \<lparr>pg_page = page, pg_limit = limit, pg_total = int (length ?Q),
             pg_pages = (int (length ?Q) + limit - 1) div limit\<rparr>\<rparr>"
  assume v: "1 \<le> page \<and> 1 \<le> limit \<and> limit \<le> 100"
  then have ok: "get_products ilike s category farmer_id search page limit = Inr ?r"
    by (simp add: get_products_ok)
  have len: "length (pr_products ?r) = min (nat limit) (length ?Q - nat ((page - 1) * limit))"
    by (simp add: min.commute)
  have nth: "\<forall>i < length (pr_products ?r).
      pv_product (pr_products ?r ! i) = ?Q ! (nat ((page - 1) * limit) + i)"
    by (auto simp: embed_farmer_def)
  have pages: "pg_pages (pr_pagination ?r) = \<lceil>real (length ?Q) / real_of_int limit\<rceil>"
    using v ceil_div_int [of limit "int (length ?Q)"] by simp
  have ex: "length ?Q = 25 \<and> page = 2 \<and> limit = 20 \<longrightarrow>
      length (pr_products ?r) = 5 \<and> pg_pages (pr_pagination ?r) = 2"
    by simp
  show "\<exists>r. get_products ilike s category farmer_id search page limit = Inr r \<and>
         pr_products r =
           map (embed_farmer s)
             (take (nat limit)
                (drop (nat ((page - 1) * limit)) ?Q)) \<and>
         length (pr_products r) =
           min (nat limit) (length ?Q - nat ((page - 1) * limit)) \<and>
         (\<forall>i < length (pr_products r).
            pv_product (pr_products r ! i) = ?Q ! (nat ((page - 1) * limit) + i)) \<and>
         pg_page (pr_pagination r) = page \<and>
         pg_limit (pr_pagination r) = limit \<and>
         pg_total (pr_pagination r) = int (length ?Q) \<and>
         pg_pages (pr_pagination r) = \<lceil>real (length ?Q) / real_of_int limit\<rceil> \<and>
         (length ?Q = 25 \<and> page = 2 \<and> limit = 20 \<longrightarrow>
            length (pr_products r) = 5 \<and> pg_pages (pr_pagination r) = 2)"
    apply (rule exI [of _ ?r])
    apply (intro conjI)
            apply (rule ok)
           apply simp
          apply (rule len)
         apply (rule nth)
        apply simp
       apply simp
      apply simp
     apply (rule pages)
    apply (rule ex)
    done
qed

lemma grain_count:
  "length (products_query (\<lambda>text pattern. False) catalog_db (Some ''grain'') None None) = 25"
  by code_simp

theorem get_products_pagination_witness:
  "(1::int) \<le> 2 \<and> (1::int) \<le> 20 \<and> (20::int) \<le> 100 \<and>
   length (products_query (\<lambda>text pattern. False) catalog_db (Some ''grain'') None None) = 25 \<and>
   get_products (\<lambda>text pattern. False) catalog_db (Some ''grain'') None None 0 20
     = Inl RequestValidationError \<and>
   (\<exists>r. get_products (\<lambda>text pattern. False) catalog_db (Some ''grain'') None None 2 20 = Inr r \<and>
        length (pr_products r) = 5 \<and>
        pg_total (pr_pagination r) = 25 \<and>
        pg_pages (pr_pagination r) = 2)"
  using get_products_pagination
          [of 2 20 "\<lambda>text pattern. False" catalog_db "Some ''grain''" None None]
        get_products_pagination
          [of 0 20 "\<lambda>text pattern. False" catalog_db "Some ''grain''" None None]
        grain_count
  by auto

subsection \<open>Writes to a product of another farmer\<close>

lemma filter_none: "(\<forall>x \<in> set xs. \<not> P x) \<Longrightarrow> filter P xs = []"
  by (simp add: filter_empty_conv)

text \<open>
  Claim C8. Let a product exist in store \<open>s1\<close> without the acting user owning it, and let
  no product of that id exist in store \<open>s2\<close>. Then updating and deleting it answer, in
  both stores, the same 404 with the same detail and leave the store as it was; the
  answer is never a 403.
\<close>

theorem product_write_not_found:
  assumes ex: "\<exists>p \<in> set (products s1). p_id p = product_id"
    and other: "\<forall>p \<in> set (products s1). p_id p = product_id \<longrightarrow> p_farmer_id p \<noteq> cu_id cu"
    and absent: "\<forall>p \<in> set (products s2). p_id p \<noteq> product_id"
  shows "update_product s1 product_id product_data cu =
           (Inl (HTTPException 404 ''Product not found or unauthorized''), s1) \<and>
         update_product s2 product_id product_data cu =
           (Inl (HTTPException 404 ''Product not found or unauthorized''), s2) \<and>
         delete_product s1 product_id cu =
           (Inl (HTTPException 404 ''Product not found or unauthorized''), s1) \<and>
         delete_product s2 product_id cu =
           (Inl (HTTPException 404 ''Product not found or unauthorized''), s2) \<and>
         fst (update_product s1 product_id product_data cu) =
           fst (update_product s2 product_id product_data cu) \<and>
         fst (delete_product s1 product_id cu) = fst (delete_product s2 product_id cu) \<and>
         (\<forall>detail. fst (update_product s1 product_id product_data cu) \<noteq> Inl (HTTPException 403 detail)) \<and>
         (\<forall>detail. fst (delete_product s1 product_id cu) \<noteq> Inl (HTTPException 403 detail))"
proof -
  have f1: "filter (\<lambda>p. p_id p = product_id \<and> p_farmer_id p = cu_id cu) (products s1) = []"
    using other by (intro filter_none) blast
  have f2: "filter (\<lambda>p. p_id p = product_id \<and> p_farmer_id p = cu_id cu) (products s2) = []"
    using absent by (intro filter_none) blast
  show ?thesis
    by (simp add: update_product_def delete_product_def f1 f2)
qed

theorem product_write_not_found_witness:
  "(\<exists>p \<in> set (products market_db). p_id p = ''prod-tomato'') \<and>
   update_product market_db ''prod-tomato'' rename_update farmer_two =
     (Inl (HTTPException 404 ''Product not found or unauthorized''), market_db) \<and>
   update_product no_users_db ''prod-tomato'' rename_update farmer_two =
     (Inl (HTTPException 404 ''Product not found or unauthorized''), no_users_db) \<and>
   delete_product market_db ''prod-tomato'' farmer_two =
     (Inl (HTTPException 404 ''Product not found or unauthorized''), market_db) \<and>
   delete_product no_users_db ''prod-tomato'' farmer_two =
     (Inl (HTTPException 404 ''Product not found or unauthorized''), no_users_db)"
proof -
  have ex: "\<exists>p \<in> set (products market_db). p_id p = ''prod-tomato''"
    by (simp add: market_db_def tomato_def)
  have other: "\<forall>p \<in> set (products market_db).
      p_id p = ''prod-tomato'' \<longrightarrow> p_farmer_id p \<noteq> cu_id farmer_two"
    by (simp add: market_db_def tomato_def maize_def beans_def farmer_two_def)
  have absent: "\<forall>p \<in> set (products no_users_db). p_id p \<noteq> ''prod-tomato''"
    by (simp add: no_users_db_def)
  show ?thesis
    using product_write_not_found [OF ex other absent, of rename_update] ex by blast
qed

subsection \<open>Checkout: the two refusals\<close>

lemma checkout_not_found:
  assumes "\<forall>c \<in> set (carts s). c_id c = cart_id \<longrightarrow> c_user_id c \<noteq> cu_id cu"
  shows "checkout_order ar uuid4 now s cd cart_id cu = (Inl (HTTPException 404 ''Cart not found''), s)"
proof -
  have "filter (\<lambda>c. c_id c = cart_id \<and> c_user_id c = cu_id cu) (carts s) = []"
    using assms by (intro filter_none) blast
  then show ?thesis by (simp add: checkout_order_def)
qed

lemma checkout_empty:
  assumes found: "\<exists>c \<in> set (carts s). c_id c = cart_id \<and> c_user_id c = cu_id cu"
    and empty: "\<forall>i \<in> set (cart_items s). ci_cart_id i \<noteq> cart_id"
  shows "checkout_order ar uuid4 now s cd cart_id cu = (Inl (HTTPException 400 ''Cart is empty''), s)"
proof -
  obtain c cs where f: "filter (\<lambda>c. c_id c = cart_id \<and> c_user_id c = cu_id cu) (carts s) = c # cs"
    using found by (cases "filter (\<lambda>c. c_id c = cart_id \<and> c_user_id c = cu_id cu) (carts s)")
      (auto simp: filter_empty_conv)
  have "c \<in> set (filter (\<lambda>c. c_id c = cart_id \<and> c_user_id c = cu_id cu) (carts s))"
    by (simp add: f)
  then have cid: "c_id c = cart_id" by simp
  have "cart_lines s cart_id = []"
    unfolding cart_lines_def using empty by (intro filter_none) blast
  then have "joined_cart_items s (c_id c) = []"
    by (simp add: joined_cart_items_def cid)
  then show ?thesis by (simp add: checkout_order_def f)
qed

text \<open>
  Claim C7. A checkout whose cart id names no cart of the acting user (no such cart, or a
  cart of somebody else) answers 404 "Cart not found"; a checkout of the acting user's
  cart without lines answers 400 "Cart is empty". In both cases the store after the
  request is the store before it: no order, no inventory write, no change to the cart.
\<close>

theorem checkout_failures_change_nothing:
  "((\<forall>c \<in> set (carts s). c_id c = cart_id \<longrightarrow> c_user_id c \<noteq> cu_id cu) \<longrightarrow>
      checkout_order ar uuid4 now s cd cart_id cu = (Inl (HTTPException 404 ''Cart not found''), s)) \<and>
   ((\<exists>c \<in> set (carts s). c_id c = cart_id \<and> c_user_id c = cu_id cu) \<and>
    (\<forall>i \<in> set (cart_items s). ci_cart_id i \<noteq> cart_id) \<longrightarrow>
      checkout_order ar uuid4 now s cd cart_id cu = (Inl (HTTPException 400 ''Cart is empty''), s))"
  using checkout_not_found checkout_empty by blast

theorem checkout_failures_change_nothing_witness:
  "checkout_order exact_arithmetic sample_uuid4 0 market_db sample_checkout ''cart-9'' ann =
     (Inl (HTTPException 404 ''Cart not found''), market_db) \<and>
   checkout_order exact_arithmetic sample_uuid4 0 market_db sample_checkout ''cart-1'' bob =
     (Inl (HTTPException 404 ''Cart not found''), market_db) \<and>
   checkout_order exact_arithmetic sample_uuid4 0 market_db sample_checkout ''cart-2'' bob =
     (Inl (HTTPException 400 ''Cart is empty''), market_db)"
proof -
  have a: "\<forall>c \<in> set (carts market_db). c_id c = ''cart-9'' \<longrightarrow> c_user_id c \<noteq> cu_id ann"
    by (simp add: market_db_def)
  have b: "\<forall>c \<in> set (carts market_db). c_id c = ''cart-1'' \<longrightarrow> c_user_id c \<noteq> cu_id bob"
    by (simp add: market_db_def bob_def)
  have c: "\<exists>c \<in> set (carts market_db). c_id c = ''cart-2'' \<and> c_user_id c = cu_id bob"
    by (simp add: market_db_def bob_def)
  have d: "\<forall>i \<in> set (cart_items market_db). ci_cart_id i \<noteq> ''cart-2''"
    by (simp add: market_db_def)
  show ?thesis
    using checkout_failures_change_nothing
        [of market_db "''cart-9''" ann exact_arithmetic sample_uuid4 0 sample_checkout]
      checkout_failures_change_nothing
        [of market_db "''cart-1''" bob exact_arithmetic sample_uuid4 0 sample_checkout]
      checkout_failures_change_nothing
        [of market_db "''cart-2''" bob exact_arithmetic sample_uuid4 0 sample_checkout]
      a b c d
    by blast
qed

subsection \<open>The cart total\<close>



lemma cart_lines_set_cart_total [simp]:
  "cart_lines (set_cart_total cid t s) cid' = cart_lines s cid'"
  by (simp add: cart_lines_def set_cart_total_def)

lemma cart_items_set_cart_total [simp]:
  "cart_items (set_cart_total cid t s) = cart_items s"
  by (simp add: set_cart_total_def)





lemmas sample_defs = market_db_def five_tomatoes_def ann_def bob_def tomato_def maize_def beans_def
  sample_uuid4_def exact_arithmetic_def number_value_def






subsection \<open>Adding a product the cart already holds\<close>

text \<open>
  Claim C10. When the acting user's cart already holds a line for the product, adding the
  product again inserts no line: the line is overwritten, its quantity is the quantity of
  this request (the old quantity is not added to it) and its price is the price the
  product has now. The other lines stay as they are.
\<close>

theorem add_to_cart_replaces_line:
  assumes cart: "filter (\<lambda>c. c_user_id c = cu_id cu) (carts s) = c # cs"
    and prod: "filter (\<lambda>p. p_id p = cia_product_id cart_item) (products s) = p # ps"
    and present: "\<exists>l \<in> set (cart_items s).
        ci_cart_id l = c_id c \<and> ci_product_id l = cia_product_id cart_item"
  shows "\<exists>s'. add_to_cart ar uuid4 s cart_item cu = (Inr ''Item added to cart successfully'', s') \<and>
      cart_items s' =
        map (\<lambda>l. if ci_cart_id l = c_id c \<and> ci_product_id l = cia_product_id cart_item
                 then \<lparr>ci_id = uuid4 0, ci_cart_id = c_id c,
                       ci_product_id = cia_product_id cart_item,
                       ci_quantity = cia_quantity cart_item, ci_price = p_price p\<rparr>
                 else l) (cart_items s) \<and>
      length (cart_items s') = length (cart_items s) \<and>
      (\<forall>l \<in> set (cart_items s').
         ci_cart_id l = c_id c \<and> ci_product_id l = cia_product_id cart_item \<longrightarrow>
           ci_quantity l = cia_quantity cart_item \<and> ci_price l = p_price p)"
proof -
  let ?item = "\<lparr>ci_id = uuid4 0, ci_cart_id = c_id c, ci_product_id = cia_product_id cart_item,
                 ci_quantity = cia_quantity cart_item, ci_price = p_price p\<rparr>"
  let ?key = "\<lambda>l. ci_cart_id l = c_id c \<and> ci_product_id l = cia_product_id cart_item"
  let ?items' = "map (\<lambda>l. if ?key l then ?item else l) (cart_items s)"
  have cf: "conflicts ?item = ?key"
    by (auto simp: conflicts_def fun_eq_iff)
  have ne: "filter (conflicts ?item) (cart_items s) \<noteq> []"
    unfolding cf using present by (simp add: filter_empty_conv)
  have up: "upsert_cart_item ?item (cart_items s) = ?items'"
    using ne by (simp add: upsert_cart_item_def cf)
  define s' where "s' = set_cart_total (c_id c)
      (lines_total ar (cart_lines (s\<lparr>cart_items := ?items'\<rparr>) (c_id c))) (s\<lparr>cart_items := ?items'\<rparr>)"
  have r: "add_to_cart ar uuid4 s cart_item cu = (Inr ''Item added to cart successfully'', s')"
    unfolding s'_def by (simp add: add_to_cart_def Let_def cart prod up)
  have i: "cart_items s' = ?items'"
    unfolding s'_def by simp
  have q: "\<forall>l \<in> set ?items'. ?key l \<longrightarrow>
           ci_quantity l = cia_quantity cart_item \<and> ci_price l = p_price p"
    by auto
  show ?thesis
    apply (rule exI [of _ s'])
    apply (intro conjI)
       apply (rule r)
      apply (rule i)
     apply (simp add: i)
    apply (unfold i)
    apply (rule q)
    done
qed


theorem add_to_cart_replaces_line_witness:
  "filter (\<lambda>c. c_user_id c = cu_id ann) (carts market_db) =
     [\<lparr>c_id = ''cart-1'', c_user_id = ''buyer-1'', c_total = PyInt 99\<rparr>] \<and>
   filter (\<lambda>p. p_id p = cia_product_id five_tomatoes) (products market_db) = [tomato] \<and>
   (\<exists>l \<in> set (cart_items market_db).
        ci_cart_id l = ''cart-1'' \<and> ci_product_id l = ''prod-tomato'' \<and>
        ci_quantity l = 2 \<and> ci_price l = PyInt 2) \<and>
   (\<exists>s'. add_to_cart exact_arithmetic sample_uuid4 market_db five_tomatoes ann =
           (Inr ''Item added to cart successfully'', s') \<and>
      map (\<lambda>i. (ci_product_id i, ci_quantity i, ci_price i)) (cart_items s') =
        [(''prod-tomato'', 5, PyInt 3), (''prod-maize'', 1, PyInt 5), (''prod-beans'', 3, PyInt 2)])"
proof -
  let ?c = "\<lparr>c_id = ''cart-1'', c_user_id = ''buyer-1'', c_total = PyInt 99\<rparr>"
  have cart: "filter (\<lambda>c. c_user_id c = cu_id ann) (carts market_db) = ?c # []"
    by (simp add: sample_defs)
  have prod: "filter (\<lambda>p. p_id p = cia_product_id five_tomatoes) (products market_db) = tomato # []"
    by (simp add: sample_defs)
  have present: "\<exists>l \<in> set (cart_items market_db).
      ci_cart_id l = c_id ?c \<and> ci_product_id l = cia_product_id five_tomatoes"
    by (simp add: sample_defs)
  have old: "\<exists>l \<in> set (cart_items market_db).
        ci_cart_id l = ''cart-1'' \<and> ci_product_id l = ''prod-tomato'' \<and>
        ci_quantity l = 2 \<and> ci_price l = PyInt 2"
    by (simp add: sample_defs)
  from add_to_cart_replaces_line [OF cart prod present, of exact_arithmetic sample_uuid4]
  obtain s' where r: "add_to_cart exact_arithmetic sample_uuid4 market_db five_tomatoes ann =
           (Inr ''Item added to cart successfully'', s')"
    and items: "cart_items s' =
        map (\<lambda>l. if ci_cart_id l = c_id ?c \<and> ci_product_id l = cia_product_id five_tomatoes
                 then \<lparr>ci_id = sample_uuid4 0, ci_cart_id = c_id ?c,
                       ci_product_id = cia_product_id five_tomatoes,
                       ci_quantity = cia_quantity five_tomatoes, ci_price = p_price tomato\<rparr>
                 else l) (cart_items market_db)"
    by (elim exE conjE)
  have m: "map (\<lambda>i. (ci_product_id i, ci_quantity i, ci_price i)) (cart_items s') =
        [(''prod-tomato'', 5, PyInt 3), (''prod-maize'', 1, PyInt 5), (''prod-beans'', 3, PyInt 2)]"
    unfolding items by (simp add: sample_defs)
  have e: "\<exists>s'. add_to_cart exact_arithmetic sample_uuid4 market_db five_tomatoes ann =
           (Inr ''Item added to cart successfully'', s') \<and>
      map (\<lambda>i. (ci_product_id i, ci_quantity i, ci_price i)) (cart_items s') =
        [(''prod-tomato'', 5, PyInt 3), (''prod-maize'', 1, PyInt 5), (''prod-beans'', 3, PyInt 2)]"
    using r m by (intro exI conjI)
  show ?thesis
    using cart prod old e by (intro conjI)
qed

subsection \<open>Login\<close>

lemma login_no_user:
  assumes "\<forall>u \<in> set (users s). u ''email'' \<noteq> Some (JStr (ul_email login_data))"
  shows "login_user cfg now s login_data = (Inl (HTTPException 401 ''Invalid email or password''), s)"
proof -
  have "filter (\<lambda>u. u ''email'' = Some (JStr (ul_email login_data))) (users s) = []"
    using assms by (intro filter_none) blast
  then show ?thesis by (simp add: login_user_def)
qed

lemma login_mismatch:
  assumes f: "filter (\<lambda>u. u ''email'' = Some (JStr (ul_email login_data))) (users s) = u # us"
    and d: "u ''password_hash'' = Some d"
    and v: "\<not> verify_password cfg (ul_password login_data) d"
  shows "login_user cfg now s login_data = (Inl (HTTPException 401 ''Invalid email or password''), s)"
proof -
  have b: "backfill_password_hash cfg s u (ul_password login_data) = Inr (u, s)"
    using d by (simp add: backfill_password_hash_def dom_def)
  show ?thesis
    using v d by (simp add: login_user_def f b get_or_def)
qed

lemma with_full_name_other: "k \<noteq> ''full_name'' \<Longrightarrow> with_full_name user k = user k"
  by (simp add: with_full_name_def)

lemma login_success:
  assumes ok: "login_user cfg now s login_data = (Inr r, s')"
  shows "\<exists>u us. filter (\<lambda>u. u ''email'' = Some (JStr (ul_email login_data))) (users s) = u # us \<and>
      (\<forall>d. u ''password_hash'' = Some d \<longrightarrow> verify_password cfg (ul_password login_data) d) \<and>
      (\<exists>u' us' d'. filter (\<lambda>u. u ''email'' = Some (JStr (ul_email login_data))) (users s') = u' # us' \<and>
         u' ''password_hash'' = Some d' \<and> verify_password cfg (ul_password login_data) d') \<and>
      lr_user r ''password_hash'' = None"
proof (cases "filter (\<lambda>u. u ''email'' = Some (JStr (ul_email login_data))) (users s)")
  case Nil
  with ok show ?thesis by (simp add: login_user_def)
next
  case (Cons u us)
  show ?thesis
  proof (cases "u ''password_hash''")
    case (Some d)
    then have b: "backfill_password_hash cfg s u (ul_password login_data) = Inr (u, s)"
      by (simp add: backfill_password_hash_def dom_def)
    from ok have v: "verify_password cfg (ul_password login_data) d" and s': "s' = s"
      and r: "lr_user r ''password_hash'' = None"
      by (auto simp: login_user_def Cons b get_or_def Some with_full_name_other
          split: if_splits option.splits)
    show ?thesis
      using v s' r Cons Some by auto
  next
    case None
    show ?thesis
    proof (cases "u ''id''")
      case n: None
      then have "backfill_password_hash cfg s u (ul_password login_data) =
          Inl (key_error ''Login error: '' ''id'')"
        using None by (simp add: backfill_password_hash_def dom_def)
      with ok show ?thesis by (simp add: login_user_def Cons)
    next
      case (Some uid)
      let ?h = "JStr (get_password_hash cfg (ul_password login_data))"
      let ?f = "\<lambda>u. if u ''id'' = Some uid then u(''password_hash'' \<mapsto> ?h) else u"
      have b: "backfill_password_hash cfg s u (ul_password login_data) =
          Inr (u(''password_hash'' \<mapsto> ?h), s\<lparr>users := map ?f (users s)\<rparr>)"
        using None Some by (simp add: backfill_password_hash_def dom_def Let_def)
      from ok have s': "s' = s\<lparr>users := map ?f (users s)\<rparr>"
        and r: "lr_user r ''password_hash'' = None"
        by (auto simp: login_user_def Cons b get_or_def with_full_name_other
            split: if_splits option.splits)
      have pe: "(\<lambda>u. u ''email'' = Some (JStr (ul_email login_data))) \<circ> ?f =
          (\<lambda>u. u ''email'' = Some (JStr (ul_email login_data)))"
        by (auto simp: fun_eq_iff)
      have "filter (\<lambda>u. u ''email'' = Some (JStr (ul_email login_data))) (users s') =
          map ?f (filter (\<lambda>u. u ''email'' = Some (JStr (ul_email login_data))) (users s))"
        by (simp add: s' filter_map pe)
      then have f': "filter (\<lambda>u. u ''email'' = Some (JStr (ul_email login_data))) (users s') =
          (u(''password_hash'' \<mapsto> ?h)) # map ?f us"
        by (simp add: Cons Some)
      have v: "verify_password cfg (ul_password login_data) ?h"
        by (simp add: verify_password_def)
      show ?thesis
        using Cons None f' v r by auto
    qed
  qed
qed


text \<open>
  Claim C5. A login answers 401 "Invalid email or password" when no user row has the
  email, and when the row found stores a digest that the supplied password does not
  verify against; in both cases the store is unchanged. When a login answers with the
  user and a token, a row with the email exists, the supplied password verifies against
  the digest that row stored (a row that stored none had the digest of the supplied
  password written by this request), and it verifies against the digest stored for that
  user afterwards.
\<close>

theorem login_requires_matching_password:
  "((\<forall>u \<in> set (users s). u ''email'' \<noteq> Some (JStr (ul_email login_data))) \<longrightarrow>
      login_user cfg now s login_data =
        (Inl (HTTPException 401 ''Invalid email or password''), s)) \<and>
   (filter (\<lambda>u. u ''email'' = Some (JStr (ul_email login_data))) (users s) = u # us \<and>
    u ''password_hash'' = Some d \<and> \<not> verify_password cfg (ul_password login_data) d \<longrightarrow>
      login_user cfg now s login_data =
        (Inl (HTTPException 401 ''Invalid email or password''), s)) \<and>
   (login_user cfg now s login_data = (Inr r, s') \<longrightarrow>
      (\<exists>u us. filter (\<lambda>u. u ''email'' = Some (JStr (ul_email login_data))) (users s) = u # us \<and>
         (\<forall>d. u ''password_hash'' = Some d \<longrightarrow> verify_password cfg (ul_password login_data) d) \<and>
         (\<exists>u' us' d'.
            filter (\<lambda>u. u ''email'' = Some (JStr (ul_email login_data))) (users s') = u' # us' \<and>
            u' ''password_hash'' = Some d' \<and> verify_password cfg (ul_password login_data) d')))"
  using login_no_user [of s login_data cfg now]
    login_mismatch [of login_data s u us d cfg now]
    login_success [of cfg now s login_data r s']
  by blast

lemmas auth_defs = login_user_def backfill_password_hash_def verify_password_def
  get_password_hash_def create_access_token_def get_or_def with_full_name_def json_truthy_def
  format_json_def strip_def is_space_def key_error_def

lemmas auth_sample_defs = sample_config_def ann_login_def ann_wrong_login_def stranger_login_def
  market_db_def ann_row_def

lemma ann_login_ok:
  "\<exists>r. login_user sample_config 0 market_db ann_login = (Inr r, market_db) \<and>
     lr_token r = ''token-buyer-1'' \<and> lr_user r ''password_hash'' = None \<and>
     lr_user r ''full_name'' = Some (JStr ''Ann None'')"
  by (simp add: auth_defs auth_sample_defs)


theorem login_requires_matching_password_witness:
  "login_user sample_config 0 market_db stranger_login =
     (Inl (HTTPException 401 ''Invalid email or password''), market_db) \<and>
   ann_row ''password_hash'' = Some (JStr ''digest-ann'') \<and>
   \<not> verify_password sample_config ''guess'' (JStr ''digest-ann'') \<and>
   login_user sample_config 0 market_db ann_wrong_login =
     (Inl (HTTPException 401 ''Invalid email or password''), market_db) \<and>
   verify_password sample_config ''ann-secret'' (JStr ''digest-ann'') \<and>
   (\<exists>r. login_user sample_config 0 market_db ann_login = (Inr r, market_db) \<and>
      lr_token r = ''token-buyer-1'') \<and>
   (\<exists>u us. filter (\<lambda>u. u ''email'' = Some (JStr (ul_email ann_login))) (users market_db) = u # us \<and>
      (\<exists>d. u ''password_hash'' = Some d \<and> verify_password sample_config (ul_password ann_login) d))"
proof -
  have a: "\<forall>u \<in> set (users market_db). u ''email'' \<noteq> Some (JStr (ul_email stranger_login))"
    by (simp add: auth_sample_defs)
  have f: "filter (\<lambda>u. u ''email'' = Some (JStr (ul_email ann_wrong_login))) (users market_db) =
      ann_row # []"
    by (simp add: auth_sample_defs)
  have d: "ann_row ''password_hash'' = Some (JStr ''digest-ann'')"
    by (simp add: ann_row_def)
  have v: "\<not> verify_password sample_config (ul_password ann_wrong_login) (JStr ''digest-ann'')"
    by (simp add: auth_defs auth_sample_defs)
  have v': "\<not> verify_password sample_config ''guess'' (JStr ''digest-ann'')"
    by (simp add: auth_defs auth_sample_defs)
  have w: "verify_password sample_config ''ann-secret'' (JStr ''digest-ann'')"
    by (simp add: auth_defs auth_sample_defs)
  obtain r where r: "login_user sample_config 0 market_db ann_login = (Inr r, market_db)"
    and t: "lr_token r = ''token-buyer-1''"
    using ann_login_ok by blast
  note thm1 = login_requires_matching_password
      [where s = market_db and login_data = stranger_login and cfg = sample_config and now = 0]
  note thm2 = login_requires_matching_password
      [where s = market_db and login_data = ann_wrong_login and cfg = sample_config and now = 0
         and u = ann_row and us = "[]" and d = "JStr ''digest-ann''"]
  note thm3 = login_requires_matching_password
      [where s = market_db and login_data = ann_login and cfg = sample_config and now = 0
         and r = r and s' = market_db]
  have c1: "login_user sample_config 0 market_db stranger_login =
     (Inl (HTTPException 401 ''Invalid email or password''), market_db)"
    using thm1 a by blast
  have c2: "login_user sample_config 0 market_db ann_wrong_login =
     (Inl (HTTPException 401 ''Invalid email or password''), market_db)"
    using thm2 f d v by blast
  have c3: "\<exists>u us. filter (\<lambda>u. u ''email'' = Some (JStr (ul_email ann_login))) (users market_db) = u # us \<and>
      (\<exists>d. u ''password_hash'' = Some d \<and> verify_password sample_config (ul_password ann_login) d)"
    using thm3 r by blast
  have c4: "\<exists>r. login_user sample_config 0 market_db ann_login = (Inr r, market_db) \<and>
      lr_token r = ''token-buyer-1''"
    using r t by blast
  show ?thesis
    using c1 d v' c2 w c4 c3 by (intro conjI)
qed

subsection \<open>User rows in the order listing\<close>

lemmas order_defs = get_orders_def embed_order_def user_by_id_def range_rows_def truthy_def Let_def

text \<open>
  Claim C4 says that no answer carries a user's password digest. The answers that return
  a user row of their own remove the key first (for the login, \<open>login_success\<close> above).
  The order listing does not: it embeds the buyer's row with all its columns, so the
  farmer of an order reads the digest of the buyer's password.
\<close>

theorem get_orders_returns_password_hash:
  "\<exists>r v u. get_orders ordered_db None 1 20 farmer_two = Inr r \<and>
     or_orders r = [v] \<and> o_id (ov_order v) = ''order-1'' \<and> ov_users v = Some u \<and>
     u ''id'' = Some (JStr ''buyer-1'') \<and>
     u ''password_hash'' = Some (JStr ''digest-ann'')"
  by (simp add: order_defs ordered_db_def market_db_def farmer_two_def ann_row_def)

subsection \<open>The order loops\<close>

lemma decrement_quantity_ok:
  assumes "product_id \<in> p_id ` set (products s)"
  shows "decrement_quantity s product_id n = Inr (s\<lparr>products := dec_step product_id n (products s)\<rparr>)"
proof -
  obtain p ps where f: "filter (\<lambda>p. p_id p = product_id) (products s) = p # ps"
    using assms by (cases "filter (\<lambda>p. p_id p = product_id) (products s)")
      (auto simp: filter_empty_conv)
  show ?thesis by (simp add: decrement_quantity_def dec_step_def f)
qed

lemma dec_step_ids [simp]: "map p_id (dec_step product_id n ps) = map p_id ps"
  by (auto simp: dec_step_def split: list.splits)

lemma dec_products_ids [simp]: "map p_id (dec_products items ps) = map p_id ps"
  by (induction items arbitrary: ps) simp_all

lemma dec_step_id_set [simp]: "p_id ` set (dec_step product_id n ps) = p_id ` set ps"
  using dec_step_ids [of product_id n ps] by (metis set_map)

lemma dec_products_id_set [simp]: "p_id ` set (dec_products items ps) = p_id ` set ps"
  using dec_products_ids [of items ps] by (metis set_map)

lemma order_items_loop_ok:
  assumes "ie_product_id ` set items \<subseteq> p_id ` set (products s)"
  shows "order_items_loop uuid4 order_id items acc s =
           (Inr (acc @ rows_for uuid4 order_id items),
            s\<lparr>products := dec_products items (products s)\<rparr>)"
  using assms
proof (induction items arbitrary: uuid4 acc s)
  case Nil
  then show ?case by simp
next
  case (Cons item rest)
  let ?s1 = "s\<lparr>products := dec_step (ie_product_id item) (ie_quantity item) (products s)\<rparr>"
  have d: "decrement_quantity s (ie_product_id item) (ie_quantity item) = Inr ?s1"
    using Cons.prems by (intro decrement_quantity_ok) simp
  have pre: "ie_product_id ` set rest \<subseteq> p_id ` set (products ?s1)"
    using Cons.prems by simp
  show ?case
    by (simp add: d Let_def Cons.IH [OF pre])
qed

lemma insert_order_items_eq:
  "insert_order_items rows s = s\<lparr>order_items := order_items s @ rows\<rparr>"
  by (simp add: insert_order_items_def)

lemma dec_products_append:
  "dec_products (xs @ ys) ps = dec_products ys (dec_products xs ps)"
  by (induction xs arbitrary: ps) simp_all

lemma create_farmer_orders_ok:
  assumes "\<forall>fg \<in> set G. ie_product_id ` set (fg_items (snd fg)) \<subseteq> p_id ` set (products s)"
  shows "create_farmer_orders uuid4 now cd cu G created s =
     (Inr (created @ map fst (planned_orders uuid4 now cd cu G)),
      s\<lparr>orders := orders s @ map fst (planned_orders uuid4 now cd cu G),
        order_items := order_items s @ concat (map snd (planned_orders uuid4 now cd cu G)),
        products := dec_products (concat (map (\<lambda>fg. fg_items (snd fg)) G)) (products s)\<rparr>)"
  using assms
proof (induction G arbitrary: uuid4 created s)
  case Nil
  then show ?case by simp
next
  case (Cons fg rest)
  obtain farmer_id order_data where fg: "fg = (farmer_id, order_data)"
    by (cases fg)
  define ord where "ord = \<lparr>o_id = uuid4 0, o_buyer_id = cu_id cu, o_farmer_id = farmer_id,
       o_total_amount = fg_total_amount order_data, o_status = ''pending'',
       o_shipping_address = None,
       o_delivery_address = Some (cd_delivery_address cd),
       o_delivery_notes = cd_delivery_notes cd,
       o_phone_number = Some (cd_phone_number cd),
       o_payment_info = None, o_created_at = now\<rparr>"
  define rows where "rows = rows_for (\<lambda>k. uuid4 (Suc k)) (uuid4 0) (fg_items order_data)"
  define s1 where "s1 = s\<lparr>orders := orders s @ [ord]\<rparr>"
  define s3 where "s3 = s\<lparr>orders := orders s @ [ord],
                         products := dec_products (fg_items order_data) (products s),
                         order_items := order_items s @ rows\<rparr>"
  define uuid4' where "uuid4' = (\<lambda>k. uuid4 (Suc (length (fg_items order_data)) + k))"
  have here: "ie_product_id ` set (fg_items order_data) \<subseteq> p_id ` set (products s1)"
    using Cons.prems by (simp add: fg s1_def)
  have loop: "order_items_loop (\<lambda>k. uuid4 (Suc k)) (uuid4 0) (fg_items order_data) [] s1 =
      (Inr rows, s1\<lparr>products := dec_products (fg_items order_data) (products s1)\<rparr>)"
    using order_items_loop_ok [OF here, of "\<lambda>k. uuid4 (Suc k)" "uuid4 0" "[]"]
    by (simp add: rows_def)
  have s3: "insert_order_items rows (s1\<lparr>products := dec_products (fg_items order_data) (products s1)\<rparr>) = s3"
    by (simp add: insert_order_items_eq s1_def s3_def)
  have step: "create_farmer_orders uuid4 now cd cu (fg # rest) created s =
      create_farmer_orders uuid4' now cd cu rest (created @ [ord]) s3"
    unfolding fg create_farmer_orders.simps Let_def ord_def [symmetric] s1_def [symmetric]
    by (simp only: loop prod.case sum.case s3 uuid4'_def)
  have pre: "\<forall>fg \<in> set rest. ie_product_id ` set (fg_items (snd fg)) \<subseteq> p_id ` set (products s3)"
    using Cons.prems by (simp add: s3_def)
  have plan: "planned_orders uuid4 now cd cu (fg # rest) =
      (ord, rows) # planned_orders uuid4' now cd cu rest"
    by (simp add: fg ord_def rows_def uuid4'_def)
  show ?case
    unfolding step Cons.IH [OF pre] plan
    by (simp add: s3_def dec_products_append fg)
qed


subsection \<open>The grouping loop of the checkout\<close>

lemma farmer_orders_add_keys:
  "map fst (farmer_orders_add ar f e a acc) =
     (if f \<in> fst ` set acc then map fst acc else map fst acc @ [f])"
proof (induction acc)
  case Nil
  then show ?case by simp
next
  case (Cons x acc)
  obtain k g where x: "x = (k, g)" by (cases x)
  show ?case
  proof (cases "k = f")
    case True
    then show ?thesis by (simp add: x)
  next
    case False
    then show ?thesis using Cons by (simp add: x)
  qed
qed

lemma farmer_orders_add_map_of:
  "map_of (farmer_orders_add ar f e a acc) =
     (map_of acc)(f \<mapsto>
        (case map_of acc f of
           None \<Rightarrow> \<lparr>fg_items = [e], fg_total_amount = py_add ar (PyInt 0) a\<rparr>
         | Some g \<Rightarrow> \<lparr>fg_items = fg_items g @ [e], fg_total_amount = py_add ar (fg_total_amount g) a\<rparr>))"
  by (induction acc) (auto simp: fun_eq_iff)

lemma farmer_orders_add_sum:
  fixes h :: "item_entry \<Rightarrow> int"
  shows "(\<Sum>it\<leftarrow>concat (map (\<lambda>fg. fg_items (snd fg)) (farmer_orders_add ar f e a acc)). h it) =
     (\<Sum>it\<leftarrow>concat (map (\<lambda>fg. fg_items (snd fg)) acc). h it) + h e"
  by (induction acc) auto

lemma grouped_step:
  assumes g: "grouped ar acc pre"
  shows "grouped ar (farmer_orders_add ar (line_farmer l) (line_entry l) (line_amount ar l) acc) (pre @ [l])"
proof -
  let ?f = "line_farmer l"
  let ?acc' = "farmer_orders_add ar ?f (line_entry l) (line_amount ar l) acc"
  from g have d: "distinct (map fst acc)" and k: "set (map fst acc) = line_farmer ` set pre"
    and m: "\<And>f g. map_of acc f = Some g \<Longrightarrow>
         fg_items g = map line_entry (filter (\<lambda>l. line_farmer l = f) pre) \<and>
         fg_total_amount g = py_sum ar (map (line_amount ar) (filter (\<lambda>l. line_farmer l = f) pre))"
    by (auto simp: grouped_def)
  have d': "distinct (map fst ?acc')"
    using d by (simp add: farmer_orders_add_keys)
  have k': "set (map fst ?acc') = line_farmer ` set (pre @ [l])"
    using k by (auto simp: farmer_orders_add_keys)
  have m': "fg_items g' = map line_entry (filter (\<lambda>l. line_farmer l = f') (pre @ [l])) \<and>
         fg_total_amount g' = py_sum ar (map (line_amount ar) (filter (\<lambda>l. line_farmer l = f') (pre @ [l])))"
    if h: "map_of ?acc' f' = Some g'" for f' g'
  proof (cases "f' = ?f")
    case False
    with h have "map_of acc f' = Some g'" by (simp add: farmer_orders_add_map_of)
    from m [OF this] False show ?thesis by auto
  next
    case True
    show ?thesis
    proof (cases "map_of acc ?f")
      case None
      then have "?f \<notin> fst ` set acc" by (simp add: map_of_eq_None_iff)
      then have "?f \<notin> line_farmer ` set pre" using k by simp
      then have nf: "?f \<notin> line_farmer ` set pre" .
      have "line_farmer x \<noteq> f'" if x: "x \<in> set pre" for x
      proof
        assume "line_farmer x = f'"
        then have "?f = line_farmer x" using True by simp
        then have "?f \<in> line_farmer ` set pre" using x by (rule image_eqI)
        with nf show False by contradiction
      qed
      then have "\<forall>x \<in> set pre. line_farmer x \<noteq> f'" by blast
      then have e: "filter (\<lambda>l. line_farmer l = f') pre = []"
        by (intro filter_none) blast
      from h None True have "g' = \<lparr>fg_items = [line_entry l], fg_total_amount = py_add ar (PyInt 0) (line_amount ar l)\<rparr>"
        by (simp add: farmer_orders_add_map_of)
      then show ?thesis using e True by (simp add: py_sum_def)
    next
      case (Some g0)
      from h Some True have "g' = \<lparr>fg_items = fg_items g0 @ [line_entry l],
          fg_total_amount = py_add ar (fg_total_amount g0) (line_amount ar l)\<rparr>"
        by (simp add: farmer_orders_add_map_of)
      then show ?thesis using m [OF Some] True by (simp add: py_sum_def)
    qed
  qed
  show ?thesis
    unfolding grouped_def using d' k' m' by blast
qed

lemma group_by_farmer_ok:
  fixes h :: "item_entry \<Rightarrow> int"
  assumes "grouped ar acc pre"
  shows "\<exists>G. group_by_farmer ar (map (\<lambda>l. (fst l, Some (snd l))) rest) acc = Inr G \<and>
           grouped ar G (pre @ rest) \<and>
           (\<forall>h :: item_entry \<Rightarrow> int.
              (\<Sum>it\<leftarrow>concat (map (\<lambda>fg. fg_items (snd fg)) G). h it) =
              (\<Sum>it\<leftarrow>concat (map (\<lambda>fg. fg_items (snd fg)) acc). h it) +
              (\<Sum>l\<leftarrow>rest. h (line_entry l)))"
  using assms
proof (induction rest arbitrary: acc pre)
  case Nil
  then show ?case by simp
next
  case (Cons l rest)
  let ?acc' = "farmer_orders_add ar (line_farmer l) (line_entry l) (line_amount ar l) acc"
  have st: "group_by_farmer ar (map (\<lambda>l. (fst l, Some (snd l))) (l # rest)) acc =
      group_by_farmer ar (map (\<lambda>l. (fst l, Some (snd l))) rest) ?acc'"
    by (simp add: line_farmer_def line_entry_def line_amount_def)
  from Cons.IH [OF grouped_step [OF Cons.prems, of l]]
  obtain G where G: "group_by_farmer ar (map (\<lambda>l. (fst l, Some (snd l))) rest) ?acc' = Inr G"
    and gr: "grouped ar G ((pre @ [l]) @ rest)"
    and su: "\<And>h :: item_entry \<Rightarrow> int.
              (\<Sum>it\<leftarrow>concat (map (\<lambda>fg. fg_items (snd fg)) G). h it) =
              (\<Sum>it\<leftarrow>concat (map (\<lambda>fg. fg_items (snd fg)) ?acc'). h it) +
              (\<Sum>l\<leftarrow>rest. h (line_entry l))"
    by blast
  have "\<forall>h :: item_entry \<Rightarrow> int.
              (\<Sum>it\<leftarrow>concat (map (\<lambda>fg. fg_items (snd fg)) G). h it) =
              (\<Sum>it\<leftarrow>concat (map (\<lambda>fg. fg_items (snd fg)) acc). h it) +
              (\<Sum>l\<leftarrow>l # rest. h (line_entry l))"
    by (simp add: su farmer_orders_add_sum)
  with G gr st show ?case by auto
qed

subsection \<open>A checkout that goes through\<close>

lemma rows_for_keys:
  "map (\<lambda>r. (oi_order_id r, oi_product_id r, oi_quantity r, oi_price r)) (rows_for uuid4 order_id items) =
     map (\<lambda>it. (order_id, ie_product_id it, ie_quantity it, ie_price it)) items"
  by (induction items arbitrary: uuid4) simp_all

lemma planned_orders_farmers:
  "map (\<lambda>x. o_farmer_id (fst x)) (planned_orders uuid4 now cd cu G) = map fst G"
  by (induction G arbitrary: uuid4) auto

lemma planned_orders_member:
  assumes "(ord, rows) \<in> set (planned_orders uuid4 now cd cu G)"
  shows "\<exists>g u. (o_farmer_id ord, g) \<in> set G \<and> o_total_amount ord = fg_total_amount g \<and>
           o_status ord = ''pending'' \<and> o_buyer_id ord = cu_id cu \<and>
           rows = rows_for u (o_id ord) (fg_items g)"
  using assms
proof (induction G arbitrary: uuid4)
  case Nil
  then show ?case by simp
next
  case (Cons fg rest)
  obtain f g where fg: "fg = (f, g)" by (cases fg)
  from Cons.prems consider
    (here) "ord = \<lparr>o_id = uuid4 0, o_buyer_id = cu_id cu, o_farmer_id = f,
       o_total_amount = fg_total_amount g, o_status = ''pending'',
       o_shipping_address = None,
       o_delivery_address = Some (cd_delivery_address cd),
       o_delivery_notes = cd_delivery_notes cd,
       o_phone_number = Some (cd_phone_number cd),
       o_payment_info = None, o_created_at = now\<rparr>"
      "rows = rows_for (\<lambda>k. uuid4 (Suc k)) (uuid4 0) (fg_items g)"
    | (later) "(ord, rows) \<in> set (planned_orders (\<lambda>k. uuid4 (Suc (length (fg_items g)) + k)) now cd cu rest)"
    by (auto simp: fg)
  then show ?case
  proof cases
    case here
    then show ?thesis by (auto simp: fg)
  next
    case later
    from Cons.IH [OF later] show ?thesis by auto
  qed
qed

lemma grouped_member:
  assumes g: "grouped ar G lines" and m: "(f, grp) \<in> set G"
  shows "fg_items grp = map line_entry (filter (\<lambda>l. line_farmer l = f) lines) \<and>
         fg_total_amount grp = py_sum ar (map (line_amount ar) (filter (\<lambda>l. line_farmer l = f) lines))"
proof -
  from g have "distinct (map fst G)" by (simp add: grouped_def)
  with m have "map_of G f = Some grp" by simp
  with g show ?thesis unfolding grouped_def by blast
qed

lemma joined_line_product:
  assumes lines: "joined_cart_items s cart_id = map (\<lambda>l. (fst l, Some (snd l))) lines"
    and l: "l \<in> set lines"
  shows "snd l \<in> set (products s)"
proof -
  have "(fst l, Some (snd l)) \<in> set (joined_cart_items s cart_id)"
    unfolding lines using l by (simp add: image_iff) blast
  then obtain i where "(fst l, Some (snd l)) =
      (i, find (\<lambda>p. p_id p = ci_product_id i) (products s))"
    unfolding joined_cart_items_def by (auto simp only: set_map image_iff)
  then have "find (\<lambda>p. p_id p = ci_product_id i) (products s) = Some (snd l)"
    by simp
  then show ?thesis
    by (auto simp: find_Some_iff)
qed


lemma grouped_empty: "grouped ar [] []"
  by (simp add: grouped_def)

lemma checkout_success:
  assumes cart: "filter (\<lambda>c. c_id c = cart_id \<and> c_user_id c = cu_id cu) (carts s) = c # cs"
    and lines: "joined_cart_items s cart_id = map (\<lambda>l. (fst l, Some (snd l))) lines"
    and ne: "lines \<noteq> []"
  shows "\<exists>G. grouped ar G lines \<and>
      (\<forall>h :: item_entry \<Rightarrow> int.
         (\<Sum>it\<leftarrow>concat (map (\<lambda>fg. fg_items (snd fg)) G). h it) = (\<Sum>l\<leftarrow>lines. h (line_entry l))) \<and>
      checkout_order ar uuid4 now s cd cart_id cu =
        (Inr (map fst (planned_orders uuid4 now cd cu G)),
         set_cart_total cart_id (PyInt 0)
           (s\<lparr>orders := orders s @ map fst (planned_orders uuid4 now cd cu G),
              order_items := order_items s @ concat (map snd (planned_orders uuid4 now cd cu G)),
              products := dec_products (concat (map (\<lambda>fg. fg_items (snd fg)) G)) (products s),
              cart_items := filter (\<lambda>i. ci_cart_id i \<noteq> cart_id) (cart_items s)\<rparr>))"
proof -
  have "c \<in> set (filter (\<lambda>c. c_id c = cart_id \<and> c_user_id c = cu_id cu) (carts s))"
    by (simp add: cart)
  then have cid: "c_id c = cart_id" by simp
  from group_by_farmer_ok [of ar "[]" "[]" lines, OF grouped_empty]
  obtain G where G: "group_by_farmer ar (map (\<lambda>l. (fst l, Some (snd l))) lines) [] = Inr G"
    and gr: "grouped ar G lines"
    and su: "\<And>h :: item_entry \<Rightarrow> int.
         (\<Sum>it\<leftarrow>concat (map (\<lambda>fg. fg_items (snd fg)) G). h it) = (\<Sum>l\<leftarrow>lines. h (line_entry l))"
    by auto
  have ex: "\<forall>fg \<in> set G. ie_product_id ` set (fg_items (snd fg)) \<subseteq> p_id ` set (products s)"
  proof (intro ballI subsetI)
    fix fg x
    assume fg: "fg \<in> set G" and x: "x \<in> ie_product_id ` set (fg_items (snd fg))"
    have "(fst fg, snd fg) \<in> set G" using fg by simp
    from grouped_member [OF gr this]
    have "fg_items (snd fg) = map line_entry (filter (\<lambda>l. line_farmer l = fst fg) lines)"
      by simp
    with x obtain l where l: "l \<in> set lines" and xl: "x = ie_product_id (line_entry l)"
      by auto
    have "snd l \<in> set (products s)"
      using joined_line_product [OF lines l] .
    then show "x \<in> p_id ` set (products s)"
      by (simp add: xl line_entry_def)
  qed
  obtain l ls where ll: "lines = l # ls"
    using ne by (cases lines) auto
  have j: "joined_cart_items s (c_id c) = (fst l, Some (snd l)) # map (\<lambda>l. (fst l, Some (snd l))) ls"
    by (simp add: cid lines ll)
  have G': "group_by_farmer ar ((fst l, Some (snd l)) # map (\<lambda>l. (fst l, Some (snd l))) ls) [] = Inr G"
    using G by (simp add: ll)
  have "checkout_order ar uuid4 now s cd cart_id cu =
        (Inr (map fst (planned_orders uuid4 now cd cu G)),
         set_cart_total cart_id (PyInt 0)
           (s\<lparr>orders := orders s @ map fst (planned_orders uuid4 now cd cu G),
              order_items := order_items s @ concat (map snd (planned_orders uuid4 now cd cu G)),
              products := dec_products (concat (map (\<lambda>fg. fg_items (snd fg)) G)) (products s),
              cart_items := filter (\<lambda>i. ci_cart_id i \<noteq> cart_id) (cart_items s)\<rparr>))"
    unfolding checkout_order_def cart list.case j G' sum.case
      create_farmer_orders_ok [OF ex, of uuid4 now cd cu "[]"]
    by simp
  with gr su show ?thesis by blast
qed

lemma joined_line_id:
  assumes lines: "joined_cart_items s cart_id = map (\<lambda>l. (fst l, Some (snd l))) lines"
    and l: "l \<in> set lines"
  shows "p_id (snd l) = ci_product_id (fst l)"
proof -
  have "(fst l, Some (snd l)) \<in> set (joined_cart_items s cart_id)"
    unfolding lines using l by (simp add: image_iff) blast
  then obtain i where "(fst l, Some (snd l)) =
      (i, find (\<lambda>p. p_id p = ci_product_id i) (products s))"
    unfolding joined_cart_items_def by (auto simp only: set_map image_iff)
  then have "find (\<lambda>p. p_id p = ci_product_id (fst l)) (products s) = Some (snd l)"
    by simp
  then show ?thesis
    by (auto simp: find_Some_iff)
qed

lemma planned_order_of_group:
  assumes gr: "grouped ar G lines"
    and m: "(ord, rows) \<in> set (planned_orders uuid4 now cd cu G)"
  shows "map (\<lambda>r. (oi_order_id r, oi_product_id r, oi_quantity r, oi_price r)) rows =
           map (\<lambda>l. (o_id ord, p_id (snd l), ci_quantity (fst l), p_price (snd l)))
             (filter (\<lambda>l. p_farmer_id (snd l) = o_farmer_id ord) lines) \<and>
         o_total_amount ord =
           foldl (py_add ar) (PyInt 0)
             (map (\<lambda>l. py_mul ar (p_price (snd l)) (PyInt (ci_quantity (fst l))))
                (filter (\<lambda>l. p_farmer_id (snd l) = o_farmer_id ord) lines)) \<and>
         o_status ord = ''pending'' \<and> o_buyer_id ord = cu_id cu"
proof -
  from planned_orders_member [OF m]
  obtain g u where g: "(o_farmer_id ord, g) \<in> set G"
    and t: "o_total_amount ord = fg_total_amount g"
    and st: "o_status ord = ''pending''" and b: "o_buyer_id ord = cu_id cu"
    and r: "rows = rows_for u (o_id ord) (fg_items g)"
    by blast
  from grouped_member [OF gr g]
  have i: "fg_items g = map line_entry (filter (\<lambda>l. line_farmer l = o_farmer_id ord) lines)"
    and a: "fg_total_amount g = py_sum ar (map (line_amount ar) (filter (\<lambda>l. line_farmer l = o_farmer_id ord) lines))"
    by simp_all
  have "map (\<lambda>r. (oi_order_id r, oi_product_id r, oi_quantity r, oi_price r)) rows =
      map (\<lambda>it. (o_id ord, ie_product_id it, ie_quantity it, ie_price it)) (fg_items g)"
    unfolding r by (rule rows_for_keys)
  then have k: "map (\<lambda>r. (oi_order_id r, oi_product_id r, oi_quantity r, oi_price r)) rows =
           map (\<lambda>l. (o_id ord, p_id (snd l), ci_quantity (fst l), p_price (snd l)))
             (filter (\<lambda>l. p_farmer_id (snd l) = o_farmer_id ord) lines)"
    by (simp add: i line_entry_def line_farmer_def comp_def)
  have la: "line_amount ar = (\<lambda>l. py_mul ar (p_price (snd l)) (PyInt (ci_quantity (fst l))))"
    by (simp add: fun_eq_iff line_amount_def)
  have lf: "line_farmer = (\<lambda>l. p_farmer_id (snd l))"
    by (simp add: fun_eq_iff line_farmer_def)
  have tot: "o_total_amount ord =
           foldl (py_add ar) (PyInt 0)
             (map (\<lambda>l. py_mul ar (p_price (snd l)) (PyInt (ci_quantity (fst l))))
                (filter (\<lambda>l. p_farmer_id (snd l) = o_farmer_id ord) lines))"
    using t a by (simp add: py_sum_def la lf)
  show ?thesis
    using k tot st b by (intro conjI)
qed

lemma concat_map_cong:
  assumes "\<And>x. x \<in> set xs \<Longrightarrow> f x = g x"
  shows "concat (map f xs) = concat (map g xs)"
  using assms by (induction xs) simp_all

lemma set_cart_total_fields [simp]:
  "orders (set_cart_total cid t s) = orders s"
  "order_items (set_cart_total cid t s) = order_items s"
  "products (set_cart_total cid t s) = products s"
  "users (set_cart_total cid t s) = users s"
  by (simp_all add: set_cart_total_def)

lemma set_cart_total_zero:
  assumes m: "c \<in> set (carts (set_cart_total cid t s))" and i: "c_id c = cid"
  shows "c_total c = t"
proof -
  have cs: "carts (set_cart_total cid t s) =
      map (\<lambda>c. if c_id c = cid then c\<lparr>c_total := t\<rparr> else c) (carts s)"
    by (simp add: set_cart_total_def)
  from m have "c \<in> (\<lambda>c. if c_id c = cid then c\<lparr>c_total := t\<rparr> else c) ` set (carts s)"
    by (simp only: cs set_map)
  then obtain x where c: "c = (if c_id x = cid then x\<lparr>c_total := t\<rparr> else x)"
    by (rule imageE)
  show ?thesis
  proof (cases "c_id x = cid")
    case True
    then show ?thesis by (simp add: c)
  next
    case False
    then have "c = x" by (simp add: c)
    with False i show ?thesis by simp
  qed
qed

text \<open>
  Claim C1. Take a checkout of a cart the acting user owns, with at least one line, each
  line joined to the product it refers to (\<open>lines\<close> is the list of these pairs). The
  checkout succeeds and returns the orders it created: one per farmer id among the
  products of the lines, each pending and bought by the acting user. The orders are
  appended to the orders table; the order items appended are, order after order, the
  lines of that order's farmer with the line's product id and quantity. Afterwards the
  cart has no line and its total is 0.
\<close>

theorem checkout_one_order_per_farmer:
  assumes cart: "filter (\<lambda>c. c_id c = cart_id \<and> c_user_id c = cu_id cu) (carts s) = c # cs"
    and lines: "joined_cart_items s cart_id = map (\<lambda>l. (fst l, Some (snd l))) lines"
    and ne: "lines \<noteq> []"
  shows "\<exists>created s'.
      checkout_order ar uuid4 now s cd cart_id cu = (Inr created, s') \<and>
      distinct (map o_farmer_id created) \<and>
      set (map o_farmer_id created) = (\<lambda>l. p_farmer_id (snd l)) ` set lines \<and>
      (\<forall>ord \<in> set created. o_status ord = ''pending'' \<and> o_buyer_id ord = cu_id cu) \<and>
      orders s' = orders s @ created \<and>
      (\<exists>new_rows. order_items s' = order_items s @ new_rows \<and>
         map (\<lambda>r. (oi_order_id r, oi_product_id r, oi_quantity r)) new_rows =
           concat (map (\<lambda>ord. map (\<lambda>l. (o_id ord, ci_product_id (fst l), ci_quantity (fst l)))
                                 (filter (\<lambda>l. p_farmer_id (snd l) = o_farmer_id ord) lines))
                     created)) \<and>
      cart_lines s' cart_id = [] \<and>
      (\<forall>c \<in> set (carts s'). c_id c = cart_id \<longrightarrow> c_total c = PyInt 0)"
proof -
  from checkout_success [OF cart lines ne, of ar uuid4 now cd]
  obtain G where gr: "grouped ar G lines"
    and su: "\<forall>h :: item_entry \<Rightarrow> int.
         (\<Sum>it\<leftarrow>concat (map (\<lambda>fg. fg_items (snd fg)) G). h it) = (\<Sum>l\<leftarrow>lines. h (line_entry l))"
    and co: "checkout_order ar uuid4 now s cd cart_id cu =
        (Inr (map fst (planned_orders uuid4 now cd cu G)),
         set_cart_total cart_id (PyInt 0)
           (s\<lparr>orders := orders s @ map fst (planned_orders uuid4 now cd cu G),
              order_items := order_items s @ concat (map snd (planned_orders uuid4 now cd cu G)),
              products := dec_products (concat (map (\<lambda>fg. fg_items (snd fg)) G)) (products s),
              cart_items := filter (\<lambda>i. ci_cart_id i \<noteq> cart_id) (cart_items s)\<rparr>))"
    by (elim exE conjE)
  define P where "P = planned_orders uuid4 now cd cu G"
  define created where "created = map fst P"
  define new_rows where "new_rows = concat (map snd P)"
  define s' where "s' = set_cart_total cart_id (PyInt 0)
           (s\<lparr>orders := orders s @ created,
              order_items := order_items s @ new_rows,
              products := dec_products (concat (map (\<lambda>fg. fg_items (snd fg)) G)) (products s),
              cart_items := filter (\<lambda>i. ci_cart_id i \<noteq> cart_id) (cart_items s)\<rparr>)"
  have r: "checkout_order ar uuid4 now s cd cart_id cu = (Inr created, s')"
    using co by (simp add: created_def new_rows_def s'_def P_def)
  have f: "map o_farmer_id created = map fst G"
    using planned_orders_farmers [of uuid4 now cd cu G] by (simp add: created_def P_def comp_def)
  have d: "distinct (map o_farmer_id created)"
    using gr by (simp add: f grouped_def)
  have lf: "line_farmer = (\<lambda>l. p_farmer_id (snd l))"
    by (simp add: fun_eq_iff line_farmer_def)
  have "set (map fst G) = line_farmer ` set lines"
    using gr by (simp add: grouped_def)
  then have k: "set (map o_farmer_id created) = (\<lambda>l. p_farmer_id (snd l)) ` set lines"
    by (simp only: f lf)
  have mem: "map (\<lambda>r. (oi_order_id r, oi_product_id r, oi_quantity r, oi_price r)) (snd x) =
           map (\<lambda>l. (o_id (fst x), p_id (snd l), ci_quantity (fst l), p_price (snd l)))
             (filter (\<lambda>l. p_farmer_id (snd l) = o_farmer_id (fst x)) lines) \<and>
         o_status (fst x) = ''pending'' \<and> o_buyer_id (fst x) = cu_id cu"
    if "x \<in> set P" for x
    using planned_order_of_group [OF gr, of "fst x" "snd x" uuid4 now cd cu] that
    by (simp add: P_def)
  have st: "\<forall>ord \<in> set created. o_status ord = ''pending'' \<and> o_buyer_id ord = cu_id cu"
  proof
    fix ord assume "ord \<in> set created"
    then obtain x where "x \<in> set P" and "ord = fst x"
      by (auto simp: created_def)
    with mem [of x] show "o_status ord = ''pending'' \<and> o_buyer_id ord = cu_id cu"
      by simp
  qed
  have three: "map (\<lambda>r. (oi_order_id r, oi_product_id r, oi_quantity r)) (snd x) =
      map (\<lambda>l. (o_id (fst x), ci_product_id (fst l), ci_quantity (fst l)))
         (filter (\<lambda>l. p_farmer_id (snd l) = o_farmer_id (fst x)) lines)"
    if x: "x \<in> set P" for x
  proof -
    have "map (\<lambda>r. (oi_order_id r, oi_product_id r, oi_quantity r)) (snd x) =
        map (\<lambda>q. (fst q, fst (snd q), fst (snd (snd q))))
          (map (\<lambda>r. (oi_order_id r, oi_product_id r, oi_quantity r, oi_price r)) (snd x))"
      by (simp add: comp_def)
    also have "\<dots> = map (\<lambda>l. (o_id (fst x), p_id (snd l), ci_quantity (fst l)))
        (filter (\<lambda>l. p_farmer_id (snd l) = o_farmer_id (fst x)) lines)"
      using mem [OF x] by (simp add: comp_def)
    also have "\<dots> = map (\<lambda>l. (o_id (fst x), ci_product_id (fst l), ci_quantity (fst l)))
        (filter (\<lambda>l. p_farmer_id (snd l) = o_farmer_id (fst x)) lines)"
      by (rule map_cong) (auto simp: joined_line_id [OF lines])
    finally show ?thesis .
  qed
  have rows: "map (\<lambda>r. (oi_order_id r, oi_product_id r, oi_quantity r)) new_rows =
      concat (map (\<lambda>ord. map (\<lambda>l. (o_id ord, ci_product_id (fst l), ci_quantity (fst l)))
                            (filter (\<lambda>l. p_farmer_id (snd l) = o_farmer_id ord) lines))
                created)"
  proof -
    have "map (\<lambda>r. (oi_order_id r, oi_product_id r, oi_quantity r)) new_rows =
        concat (map (\<lambda>x. map (\<lambda>r. (oi_order_id r, oi_product_id r, oi_quantity r)) (snd x)) P)"
      by (simp add: new_rows_def map_concat comp_def)
    also have "\<dots> = concat (map (\<lambda>x. map (\<lambda>l. (o_id (fst x), ci_product_id (fst l), ci_quantity (fst l)))
         (filter (\<lambda>l. p_farmer_id (snd l) = o_farmer_id (fst x)) lines)) P)"
      by (rule concat_map_cong) (rule three)
    also have "\<dots> = concat (map (\<lambda>ord. map (\<lambda>l. (o_id ord, ci_product_id (fst l), ci_quantity (fst l)))
                            (filter (\<lambda>l. p_farmer_id (snd l) = o_farmer_id ord) lines))
                created)"
      by (simp add: created_def comp_def)
    finally show ?thesis .
  qed
  have o: "orders s' = orders s @ created"
    by (simp add: s'_def)
  have oi: "order_items s' = order_items s @ new_rows"
    by (simp add: s'_def)
  have cl: "cart_lines s' cart_id = []"
    by (simp add: s'_def cart_lines_def filter_empty_conv)
  have z: "\<forall>c \<in> set (carts s'). c_id c = cart_id \<longrightarrow> c_total c = PyInt 0"
    unfolding s'_def by (intro ballI impI) (rule set_cart_total_zero)
  have nr: "\<exists>new_rows. order_items s' = order_items s @ new_rows \<and>
         map (\<lambda>r. (oi_order_id r, oi_product_id r, oi_quantity r)) new_rows =
           concat (map (\<lambda>ord. map (\<lambda>l. (o_id ord, ci_product_id (fst l), ci_quantity (fst l)))
                                 (filter (\<lambda>l. p_farmer_id (snd l) = o_farmer_id ord) lines))
                     created)"
    using oi rows by (intro exI conjI)
  show ?thesis
    apply (rule exI [of _ created])
    apply (rule exI [of _ s'])
    apply (intro conjI)
           apply (rule r)
          apply (rule d)
         apply (rule k)
        apply (rule st)
       apply (rule o)
      apply (rule nr)
     apply (rule cl)
    apply (rule z)
    done
qed

lemmas checkout_defs = checkout_order_def joined_cart_items_def cart_lines_def
  decrement_quantity_def insert_order_items_def set_cart_total_def Let_def

lemma ann_checkout:
  "\<exists>created s'. checkout_order exact_arithmetic sample_uuid4 7 market_db sample_checkout ''cart-1'' ann = (Inr created, s') \<and>
     map (\<lambda>ord. (o_id ord, o_farmer_id ord, o_buyer_id ord, o_status ord, o_total_amount ord)) created =
       [(''id-'', ''farmer-1'', ''buyer-1'', ''pending'', PyInt 12),
        (''id-xxx'', ''farmer-2'', ''buyer-1'', ''pending'', PyInt 5)] \<and>
     orders s' = created \<and>
     map (\<lambda>r. (oi_order_id r, oi_product_id r, oi_quantity r, oi_price r)) (order_items s') =
       [(''id-'', ''prod-tomato'', 2, PyInt 3), (''id-'', ''prod-beans'', 3, PyInt 2),
        (''id-xxx'', ''prod-maize'', 1, PyInt 5)] \<and>
     map (\<lambda>p. (p_id p, p_quantity p)) (products s') =
       [(''prod-tomato'', 8), (''prod-maize'', 3), (''prod-beans'', - 2)] \<and>
     cart_items s' = [] \<and>
     map c_total (carts s') = [PyInt 0, PyInt 0]"
  by (simp add: checkout_defs sample_defs sample_checkout_def)


lemma ann_cart:
  "filter (\<lambda>c. c_id c = ''cart-1'' \<and> c_user_id c = cu_id ann) (carts market_db) =
     \<lparr>c_id = ''cart-1'', c_user_id = ''buyer-1'', c_total = PyInt 99\<rparr> # []"
  by (simp add: sample_defs)

lemma ann_joined:
  "joined_cart_items market_db ''cart-1'' = map (\<lambda>l. (fst l, Some (snd l))) ann_lines"
  by (simp add: joined_cart_items_def cart_lines_def sample_defs ann_lines_def)

lemma ann_lines_ne: "ann_lines \<noteq> []"
  by (simp add: ann_lines_def)

theorem checkout_one_order_per_farmer_witness:
  "filter (\<lambda>c. c_id c = ''cart-1'' \<and> c_user_id c = cu_id ann) (carts market_db) =
     [\<lparr>c_id = ''cart-1'', c_user_id = ''buyer-1'', c_total = PyInt 99\<rparr>] \<and>
   joined_cart_items market_db ''cart-1'' = map (\<lambda>l. (fst l, Some (snd l))) ann_lines \<and>
   ann_lines \<noteq> [] \<and>
   (\<exists>created s'.
      checkout_order exact_arithmetic sample_uuid4 7 market_db sample_checkout ''cart-1'' ann = (Inr created, s') \<and>
      distinct (map o_farmer_id created) \<and>
      set (map o_farmer_id created) = {''farmer-1'', ''farmer-2''} \<and>
      map (\<lambda>ord. (o_id ord, o_farmer_id ord, o_status ord)) created =
        [(''id-'', ''farmer-1'', ''pending''), (''id-xxx'', ''farmer-2'', ''pending'')] \<and>
      orders s' = orders market_db @ created \<and>
      map (\<lambda>r. (oi_order_id r, oi_product_id r, oi_quantity r)) (order_items s') =
        [(''id-'', ''prod-tomato'', 2), (''id-'', ''prod-beans'', 3), (''id-xxx'', ''prod-maize'', 1)] \<and>
      cart_lines s' ''cart-1'' = [] \<and>
      map c_total (carts s') = [PyInt 0, PyInt 0])"
proof -
  from checkout_one_order_per_farmer
      [OF ann_cart ann_joined ann_lines_ne, of exact_arithmetic sample_uuid4 7 sample_checkout]
  obtain created s' where
    r: "checkout_order exact_arithmetic sample_uuid4 7 market_db sample_checkout ''cart-1'' ann = (Inr created, s')"
    and d: "distinct (map o_farmer_id created)"
    and k: "set (map o_farmer_id created) = (\<lambda>l. p_farmer_id (snd l)) ` set ann_lines"
    and o: "orders s' = orders market_db @ created"
    and cl: "cart_lines s' ''cart-1'' = []"
    by (elim exE conjE)
  from ann_checkout obtain created2 s2 where
    r2: "checkout_order exact_arithmetic sample_uuid4 7 market_db sample_checkout ''cart-1'' ann = (Inr created2, s2)"
    and e1: "map (\<lambda>ord. (o_id ord, o_farmer_id ord, o_buyer_id ord, o_status ord, o_total_amount ord)) created2 =
       [(''id-'', ''farmer-1'', ''buyer-1'', ''pending'', PyInt 12),
        (''id-xxx'', ''farmer-2'', ''buyer-1'', ''pending'', PyInt 5)]"
    and e2: "map (\<lambda>r. (oi_order_id r, oi_product_id r, oi_quantity r, oi_price r)) (order_items s2) =
       [(''id-'', ''prod-tomato'', 2, PyInt 3), (''id-'', ''prod-beans'', 3, PyInt 2),
        (''id-xxx'', ''prod-maize'', 1, PyInt 5)]"
    and e3: "map c_total (carts s2) = [PyInt 0, PyInt 0]"
    by (elim exE conjE)
  from r r2 have same: "created2 = created" "s2 = s'" by simp_all
  have k': "set (map o_farmer_id created) = {''farmer-1'', ''farmer-2''}"
    unfolding k by (auto simp: ann_lines_def tomato_def maize_def beans_def)
  have "map (\<lambda>ord. (o_id ord, o_farmer_id ord, o_status ord)) created =
      map (\<lambda>q. (fst q, fst (snd q), fst (snd (snd (snd q)))))
        (map (\<lambda>ord. (o_id ord, o_farmer_id ord, o_buyer_id ord, o_status ord, o_total_amount ord)) created)"
    by (simp add: comp_def)
  then have m1: "map (\<lambda>ord. (o_id ord, o_farmer_id ord, o_status ord)) created =
        [(''id-'', ''farmer-1'', ''pending''), (''id-xxx'', ''farmer-2'', ''pending'')]"
    using e1 by (simp only: same list.map fst_conv snd_conv)
  have "map (\<lambda>r. (oi_order_id r, oi_product_id r, oi_quantity r)) (order_items s') =
      map (\<lambda>q. (fst q, fst (snd q), fst (snd (snd q))))
        (map (\<lambda>r. (oi_order_id r, oi_product_id r, oi_quantity r, oi_price r)) (order_items s'))"
    by (simp add: comp_def)
  then have m2: "map (\<lambda>r. (oi_order_id r, oi_product_id r, oi_quantity r)) (order_items s') =
        [(''id-'', ''prod-tomato'', 2), (''id-'', ''prod-beans'', 3), (''id-xxx'', ''prod-maize'', 1)]"
    using e2 by (simp only: same list.map fst_conv snd_conv)
  have m3: "map c_total (carts s') = [PyInt 0, PyInt 0]"
    using e3 by (simp only: same)
  have e: "\<exists>created s'.
      checkout_order exact_arithmetic sample_uuid4 7 market_db sample_checkout ''cart-1'' ann = (Inr created, s') \<and>
      distinct (map o_farmer_id created) \<and>
      set (map o_farmer_id created) = {''farmer-1'', ''farmer-2''} \<and>
      map (\<lambda>ord. (o_id ord, o_farmer_id ord, o_status ord)) created =
        [(''id-'', ''farmer-1'', ''pending''), (''id-xxx'', ''farmer-2'', ''pending'')] \<and>
      orders s' = orders market_db @ created \<and>
      map (\<lambda>r. (oi_order_id r, oi_product_id r, oi_quantity r)) (order_items s') =
        [(''id-'', ''prod-tomato'', 2), (''id-'', ''prod-beans'', 3), (''id-xxx'', ''prod-maize'', 1)] \<and>
      cart_lines s' ''cart-1'' = [] \<and>
      map c_total (carts s') = [PyInt 0, PyInt 0]"
    using r d k' m1 o m2 cl m3 by (intro exI conjI)
  show ?thesis
    using ann_cart ann_joined ann_lines_ne e by (intro conjI)
qed

subsection \<open>Inventory\<close>

lemma dec_step_distinct:
  assumes d: "distinct (map p_id ps)"
  shows "dec_step product_id n ps =
           map (\<lambda>r. if p_id r = product_id then r\<lparr>p_quantity := p_quantity r - n\<rparr> else r) ps"
proof (cases "filter (\<lambda>p. p_id p = product_id) ps")
  case Nil
  then have "\<forall>r \<in> set ps. p_id r \<noteq> product_id"
    by (simp add: filter_empty_conv)
  then have "map (\<lambda>r. if p_id r = product_id then r\<lparr>p_quantity := p_quantity r - n\<rparr> else r) ps = ps"
    by (intro map_idI) simp
  then show ?thesis by (simp add: dec_step_def Nil)
next
  case (Cons p rest)
  have "p \<in> set (filter (\<lambda>p. p_id p = product_id) ps)" by (simp add: Cons)
  then have p: "p \<in> set ps" "p_id p = product_id" by simp_all
  from d have inj: "inj_on p_id (set ps)" by (simp add: distinct_map)
  have "(if p_id r = product_id then r\<lparr>p_quantity := p_quantity p - n\<rparr> else r) =
        (if p_id r = product_id then r\<lparr>p_quantity := p_quantity r - n\<rparr> else r)"
    if r: "r \<in> set ps" for r
  proof (cases "p_id r = product_id")
    case True
    with p r inj have "r = p" by (auto dest: inj_onD)
    then show ?thesis by simp
  next
    case False
    then show ?thesis by simp
  qed
  then have "map (\<lambda>r. if p_id r = product_id then r\<lparr>p_quantity := p_quantity p - n\<rparr> else r) ps =
      map (\<lambda>r. if p_id r = product_id then r\<lparr>p_quantity := p_quantity r - n\<rparr> else r) ps"
    by (intro map_cong) simp_all
  then show ?thesis by (simp add: dec_step_def Cons)
qed

lemma dec_products_distinct:
  assumes "distinct (map p_id ps)"
  shows "dec_products items ps =
           map (\<lambda>r. r\<lparr>p_quantity :=
                         p_quantity r - (\<Sum>it\<leftarrow>filter (\<lambda>it. ie_product_id it = p_id r) items. ie_quantity it)\<rparr>)
             ps"
  using assms
proof (induction items arbitrary: ps)
  case Nil
  then show ?case by (simp add: map_idI)
next
  case (Cons item rest)
  let ?ps1 = "dec_step (ie_product_id item) (ie_quantity item) ps"
  have d1: "distinct (map p_id ?ps1)" using Cons.prems by simp
  have s1: "?ps1 = map (\<lambda>r. if p_id r = ie_product_id item
                              then r\<lparr>p_quantity := p_quantity r - ie_quantity item\<rparr> else r) ps"
    using Cons.prems by (rule dec_step_distinct)
  show ?case
    unfolding dec_products.simps Cons.IH [OF d1]
    unfolding s1
    by (simp add: comp_def cong: map_cong)
qed

lemma create_order_products:
  assumes d: "distinct (map p_id (products s))"
    and e: "ie_product_id ` set (oc_items order_data) \<subseteq> p_id ` set (products s)"
  shows "\<exists>ord s'. create_order uuid4 now s order_data cu = (Inr ord, s') \<and>
           products s' =
             map (\<lambda>r. r\<lparr>p_quantity := p_quantity r -
                     (\<Sum>it\<leftarrow>filter (\<lambda>it. ie_product_id it = p_id r) (oc_items order_data).
                        ie_quantity it)\<rparr>) (products s)"
proof -
  define ord where "ord = \<lparr>o_id = uuid4 0, o_buyer_id = cu_id cu, o_farmer_id = oc_farmer_id order_data,
                       o_total_amount = oc_total_amount order_data, o_status = ''pending'',
                       o_shipping_address = oc_shipping_address order_data,
                       o_delivery_address = oc_delivery_address order_data,
                       o_delivery_notes = oc_delivery_notes order_data,
                       o_phone_number = oc_phone_number order_data,
                       o_payment_info = oc_payment_info order_data, o_created_at = now\<rparr>"
  define s1 where "s1 = s\<lparr>orders := orders s @ [ord]\<rparr>"
  have e1: "ie_product_id ` set (oc_items order_data) \<subseteq> p_id ` set (products s1)"
    using e by (simp add: s1_def)
  have loop: "order_items_loop (\<lambda>k. uuid4 (Suc k)) (uuid4 0) (oc_items order_data) [] s1 =
      (Inr (rows_for (\<lambda>k. uuid4 (Suc k)) (uuid4 0) (oc_items order_data)),
       s1\<lparr>products := dec_products (oc_items order_data) (products s1)\<rparr>)"
    using order_items_loop_ok [OF e1, of "\<lambda>k. uuid4 (Suc k)" "uuid4 0" "[]"] by simp
  have r: "create_order uuid4 now s order_data cu =
      (Inr ord, insert_order_items (rows_for (\<lambda>k. uuid4 (Suc k)) (uuid4 0) (oc_items order_data))
                  (s1\<lparr>products := dec_products (oc_items order_data) (products s1)\<rparr>))"
    unfolding create_order_def Let_def ord_def [symmetric] s1_def [symmetric]
    by (simp only: loop prod.case sum.case)
  have p: "products (insert_order_items (rows_for (\<lambda>k. uuid4 (Suc k)) (uuid4 0) (oc_items order_data))
                  (s1\<lparr>products := dec_products (oc_items order_data) (products s1)\<rparr>)) =
      dec_products (oc_items order_data) (products s)"
    by (simp add: insert_order_items_eq s1_def)
  show ?thesis
    using r p dec_products_distinct [OF d, of "oc_items order_data"]
    by (intro exI conjI) simp_all
qed

lemma filter_sum_if:
  fixes f :: "'a \<Rightarrow> int"
  shows "(\<Sum>x\<leftarrow>filter P xs. f x) = (\<Sum>x\<leftarrow>xs. if P x then f x else 0)"
  by (induction xs) simp_all

lemma checkout_products:
  assumes d: "distinct (map p_id (products s))"
    and cart: "filter (\<lambda>c. c_id c = cart_id \<and> c_user_id c = cu_id cu) (carts s) = c # cs"
    and lines: "joined_cart_items s cart_id = map (\<lambda>l. (fst l, Some (snd l))) lines"
    and ne: "lines \<noteq> []"
  shows "\<exists>created s'. checkout_order ar uuid4 now s cd cart_id cu = (Inr created, s') \<and>
           products s' =
             map (\<lambda>r. r\<lparr>p_quantity := p_quantity r -
                     (\<Sum>l\<leftarrow>filter (\<lambda>l. ci_product_id (fst l) = p_id r) lines.
                        ci_quantity (fst l))\<rparr>) (products s)"
proof -
  from checkout_success [OF cart lines ne, of ar uuid4 now cd]
  obtain G where gr: "grouped ar G lines"
    and su: "\<forall>h :: item_entry \<Rightarrow> int.
         (\<Sum>it\<leftarrow>concat (map (\<lambda>fg. fg_items (snd fg)) G). h it) = (\<Sum>l\<leftarrow>lines. h (line_entry l))"
    and co: "checkout_order ar uuid4 now s cd cart_id cu =
        (Inr (map fst (planned_orders uuid4 now cd cu G)),
         set_cart_total cart_id (PyInt 0)
           (s\<lparr>orders := orders s @ map fst (planned_orders uuid4 now cd cu G),
              order_items := order_items s @ concat (map snd (planned_orders uuid4 now cd cu G)),
              products := dec_products (concat (map (\<lambda>fg. fg_items (snd fg)) G)) (products s),
              cart_items := filter (\<lambda>i. ci_cart_id i \<noteq> cart_id) (cart_items s)\<rparr>))"
    by (elim exE conjE)
  let ?items = "concat (map (\<lambda>fg. fg_items (snd fg)) G)"
  have q: "(\<Sum>it\<leftarrow>filter (\<lambda>it. ie_product_id it = pid) ?items. ie_quantity it) =
        (\<Sum>l\<leftarrow>filter (\<lambda>l. ci_product_id (fst l) = pid) lines. ci_quantity (fst l))" for pid
  proof -
    have "(\<Sum>it\<leftarrow>filter (\<lambda>it. ie_product_id it = pid) ?items. ie_quantity it) =
        (\<Sum>it\<leftarrow>?items. if ie_product_id it = pid then ie_quantity it else 0)"
      by (rule filter_sum_if)
    also have "\<dots> = (\<Sum>l\<leftarrow>lines. if ie_product_id (line_entry l) = pid
                                  then ie_quantity (line_entry l) else 0)"
      using su by simp
    also have "\<dots> = (\<Sum>l\<leftarrow>lines. if ci_product_id (fst l) = pid then ci_quantity (fst l) else 0)"
      by (intro arg_cong [where f = sum_list] map_cong refl)
        (simp add: line_entry_def joined_line_id [OF lines])
    also have "\<dots> = (\<Sum>l\<leftarrow>filter (\<lambda>l. ci_product_id (fst l) = pid) lines. ci_quantity (fst l))"
      by (rule filter_sum_if [symmetric])
    finally show ?thesis .
  qed
  have p: "dec_products ?items (products s) =
      map (\<lambda>r. r\<lparr>p_quantity := p_quantity r -
                     (\<Sum>l\<leftarrow>filter (\<lambda>l. ci_product_id (fst l) = p_id r) lines.
                        ci_quantity (fst l))\<rparr>) (products s)"
    unfolding dec_products_distinct [OF d] by (simp add: q)
  show ?thesis
    unfolding co by (intro exI conjI) (rule refl, simp add: p)
qed

text \<open>
  Claim C3. In a store whose products have distinct ids, and with no condition on the
  quantities in stock or ordered:
  the inventory write of one item leaves the product with its quantity minus the ordered
  one and every other product as it was; a direct order whose items all name a product
  of the store goes through and leaves every product with its quantity minus the ordered
  quantities of the items that name it; a checkout of a cart with lines, each with its
  product, goes through and leaves every product with its quantity minus the quantities
  of the lines that name it. Nothing compares the ordered quantity with the stock, so a
  quantity falls below zero when more is ordered than is there.
\<close>

theorem orders_decrement_inventory:
  assumes d: "distinct (map p_id (products s))"
  shows "(\<forall>product_id n. product_id \<in> p_id ` set (products s) \<longrightarrow>
            (\<exists>s'. decrement_quantity s product_id n = Inr s' \<and>
               products s' =
                 map (\<lambda>r. if p_id r = product_id then r\<lparr>p_quantity := p_quantity r - n\<rparr> else r)
                   (products s))) \<and>
         (ie_product_id ` set (oc_items order_data) \<subseteq> p_id ` set (products s) \<longrightarrow>
            (\<exists>ord s'. create_order uuid4 now s order_data cu = (Inr ord, s') \<and>
               products s' =
                 map (\<lambda>r. r\<lparr>p_quantity := p_quantity r -
                         (\<Sum>it\<leftarrow>filter (\<lambda>it. ie_product_id it = p_id r) (oc_items order_data).
                            ie_quantity it)\<rparr>) (products s))) \<and>
         (filter (\<lambda>c. c_id c = cart_id \<and> c_user_id c = cu_id cu) (carts s) = c # cs \<longrightarrow>
          joined_cart_items s cart_id = map (\<lambda>l. (fst l, Some (snd l))) lines \<longrightarrow>
          lines \<noteq> [] \<longrightarrow>
            (\<exists>created s'. checkout_order ar uuid4 now s cd cart_id cu = (Inr created, s') \<and>
               products s' =
                 map (\<lambda>r. r\<lparr>p_quantity := p_quantity r -
                         (\<Sum>l\<leftarrow>filter (\<lambda>l. ci_product_id (fst l) = p_id r) lines.
                            ci_quantity (fst l))\<rparr>) (products s)))"
proof (intro conjI allI impI)
  fix product_id n
  assume "product_id \<in> p_id ` set (products s)"
  then have "decrement_quantity s product_id n =
      Inr (s\<lparr>products := dec_step product_id n (products s)\<rparr>)"
    by (rule decrement_quantity_ok)
  then show "\<exists>s'. decrement_quantity s product_id n = Inr s' \<and>
               products s' =
                 map (\<lambda>r. if p_id r = product_id then r\<lparr>p_quantity := p_quantity r - n\<rparr> else r)
                   (products s)"
    by (simp add: dec_step_distinct [OF d])
next
  assume "ie_product_id ` set (oc_items order_data) \<subseteq> p_id ` set (products s)"
  with d show "\<exists>ord s'. create_order uuid4 now s order_data cu = (Inr ord, s') \<and>
               products s' =
                 map (\<lambda>r. r\<lparr>p_quantity := p_quantity r -
                         (\<Sum>it\<leftarrow>filter (\<lambda>it. ie_product_id it = p_id r) (oc_items order_data).
                            ie_quantity it)\<rparr>) (products s)"
    by (rule create_order_products)
next
  assume "filter (\<lambda>c. c_id c = cart_id \<and> c_user_id c = cu_id cu) (carts s) = c # cs"
    and "joined_cart_items s cart_id = map (\<lambda>l. (fst l, Some (snd l))) lines"
    and "lines \<noteq> []"
  with d show "\<exists>created s'. checkout_order ar uuid4 now s cd cart_id cu = (Inr created, s') \<and>
               products s' =
                 map (\<lambda>r. r\<lparr>p_quantity := p_quantity r -
                         (\<Sum>l\<leftarrow>filter (\<lambda>l. ci_product_id (fst l) = p_id r) lines.
                            ci_quantity (fst l))\<rparr>) (products s)"
    by (rule checkout_products)
qed

text \<open>
  On the sample market (ten tomatoes, four maize, one bean): one write for twelve
  tomatoes leaves minus two; Ann's direct order of eleven tomatoes and five beans leaves
  minus one and minus four; the checkout of her cart (two tomatoes, one maize, three
  beans) leaves eight, three and minus two.
\<close>

theorem orders_decrement_inventory_witness:
  "distinct (map p_id (products market_db)) \<and>
   ''prod-tomato'' \<in> p_id ` set (products market_db) \<and>
   (\<exists>s'. decrement_quantity market_db ''prod-tomato'' 12 = Inr s' \<and>
      map (\<lambda>p. (p_id p, p_quantity p)) (products s') =
        [(''prod-tomato'', - 2), (''prod-maize'', 4), (''prod-beans'', 1)]) \<and>
   ie_product_id ` set (oc_items ann_order) \<subseteq> p_id ` set (products market_db) \<and>
   (\<exists>ord s'. create_order sample_uuid4 7 market_db ann_order ann = (Inr ord, s') \<and>
      map (\<lambda>p. (p_id p, p_quantity p)) (products s') =
        [(''prod-tomato'', - 1), (''prod-maize'', 4), (''prod-beans'', - 4)]) \<and>
   filter (\<lambda>c. c_id c = ''cart-1'' \<and> c_user_id c = cu_id ann) (carts market_db) =
     [\<lparr>c_id = ''cart-1'', c_user_id = ''buyer-1'', c_total = PyInt 99\<rparr>] \<and>
   joined_cart_items market_db ''cart-1'' = map (\<lambda>l. (fst l, Some (snd l))) ann_lines \<and>
   ann_lines \<noteq> [] \<and>
   (\<exists>created s'.
      checkout_order exact_arithmetic sample_uuid4 7 market_db sample_checkout ''cart-1'' ann =
        (Inr created, s') \<and>
      map (\<lambda>p. (p_id p, p_quantity p)) (products s') =
        [(''prod-tomato'', 8), (''prod-maize'', 3), (''prod-beans'', - 2)])"
proof -
  have d: "distinct (map p_id (products market_db))"
    by (simp add: sample_defs)
  have t: "''prod-tomato'' \<in> p_id ` set (products market_db)"
    by (simp add: sample_defs)
  have i: "ie_product_id ` set (oc_items ann_order) \<subseteq> p_id ` set (products market_db)"
    by (simp add: sample_defs ann_order_def)
  note th = orders_decrement_inventory
    [OF d, of ann_order sample_uuid4 7 ann "''cart-1''" _ "[]" ann_lines exact_arithmetic sample_checkout]
  from th t obtain s1 where
    a1: "decrement_quantity market_db ''prod-tomato'' 12 = Inr s1"
    and a2: "products s1 =
       map (\<lambda>r. if p_id r = ''prod-tomato'' then r\<lparr>p_quantity := p_quantity r - 12\<rparr> else r)
         (products market_db)"
    by blast
  have a3: "map (\<lambda>p. (p_id p, p_quantity p)) (products s1) =
        [(''prod-tomato'', - 2), (''prod-maize'', 4), (''prod-beans'', 1)]"
    unfolding a2 by (simp add: sample_defs)
  from th i obtain ord s2 where
    b1: "create_order sample_uuid4 7 market_db ann_order ann = (Inr ord, s2)"
    and b2: "products s2 =
       map (\<lambda>r. r\<lparr>p_quantity := p_quantity r -
               (\<Sum>it\<leftarrow>filter (\<lambda>it. ie_product_id it = p_id r) (oc_items ann_order).
                  ie_quantity it)\<rparr>) (products market_db)"
    by blast
  have b3: "map (\<lambda>p. (p_id p, p_quantity p)) (products s2) =
        [(''prod-tomato'', - 1), (''prod-maize'', 4), (''prod-beans'', - 4)]"
    unfolding b2 by (simp add: sample_defs ann_order_def)
  from th ann_cart ann_joined ann_lines_ne obtain created s3 where
    c1: "checkout_order exact_arithmetic sample_uuid4 7 market_db sample_checkout ''cart-1'' ann =
        (Inr created, s3)"
    and c2: "products s3 =
       map (\<lambda>r. r\<lparr>p_quantity := p_quantity r -
               (\<Sum>l\<leftarrow>filter (\<lambda>l. ci_product_id (fst l) = p_id r) ann_lines.
                  ci_quantity (fst l))\<rparr>) (products market_db)"
    by blast
  have c3: "map (\<lambda>p. (p_id p, p_quantity p)) (products s3) =
        [(''prod-tomato'', 8), (''prod-maize'', 3), (''prod-beans'', - 2)]"
    unfolding c2 by (simp add: sample_defs ann_lines_def)
  show ?thesis
    using d t a1 a3 i b1 b3 ann_cart ann_joined ann_lines_ne c1 c3
    by (intro conjI exI)
qed

subsection \<open>The prices of a checkout\<close>

lemma joined_line_find:
  assumes lines: "joined_cart_items s cart_id = map (\<lambda>l. (fst l, Some (snd l))) lines"
    and l: "l \<in> set lines"
  shows "find (\<lambda>p. p_id p = ci_product_id (fst l)) (products s) = Some (snd l)"
proof -
  have "(fst l, Some (snd l)) \<in> set (joined_cart_items s cart_id)"
    unfolding lines using l by (simp add: image_iff) blast
  then obtain i where "(fst l, Some (snd l)) =
      (i, find (\<lambda>p. p_id p = ci_product_id i) (products s))"
    unfolding joined_cart_items_def by (auto simp only: set_map image_iff)
  then show ?thesis
    by simp
qed

text \<open>
  Claim C2 says that the total of each order of a checkout is the sum, over the cart lines
  of the order's farmer, of the price stored in the line when it was added times the
  line's quantity, and that each order item carries that stored price. The checkout never
  reads the price of a line: Ann put her two tomatoes in the cart when the tomato cost 2,
  it costs 3 at the checkout, and the order of the first farmer (two tomatoes, three
  beans at 2) has the total 12 and a tomato item at 3, where the prices of the lines
  give 10 and 2.
\<close>

theorem checkout_ignores_line_price:
  "joined_cart_items market_db ''cart-1'' = map (\<lambda>l. (fst l, Some (snd l))) ann_lines \<and>
   map (\<lambda>l. (ci_product_id (fst l), ci_quantity (fst l), ci_price (fst l), p_farmer_id (snd l))) ann_lines =
     [(''prod-tomato'', 2, PyInt 2, ''farmer-1''), (''prod-maize'', 1, PyInt 5, ''farmer-2''),
      (''prod-beans'', 3, PyInt 2, ''farmer-1'')] \<and>
   foldl (py_add exact_arithmetic) (PyInt 0)
     (map (\<lambda>l. py_mul exact_arithmetic (ci_price (fst l)) (PyInt (ci_quantity (fst l))))
        (filter (\<lambda>l. p_farmer_id (snd l) = ''farmer-1'') ann_lines)) = PyInt 10 \<and>
   (\<exists>created s'.
      checkout_order exact_arithmetic sample_uuid4 7 market_db sample_checkout ''cart-1'' ann =
        (Inr created, s') \<and>
      map (\<lambda>ord. (o_id ord, o_farmer_id ord, o_total_amount ord)) created =
        [(''id-'', ''farmer-1'', PyInt 12), (''id-xxx'', ''farmer-2'', PyInt 5)] \<and>
      map (\<lambda>r. (oi_order_id r, oi_product_id r, oi_quantity r, oi_price r)) (order_items s') =
        [(''id-'', ''prod-tomato'', 2, PyInt 3), (''id-'', ''prod-beans'', 3, PyInt 2),
         (''id-xxx'', ''prod-maize'', 1, PyInt 5)])"
proof -
  have a: "map (\<lambda>l. (ci_product_id (fst l), ci_quantity (fst l), ci_price (fst l), p_farmer_id (snd l))) ann_lines =
     [(''prod-tomato'', 2, PyInt 2, ''farmer-1''), (''prod-maize'', 1, PyInt 5, ''farmer-2''),
      (''prod-beans'', 3, PyInt 2, ''farmer-1'')]"
    by (simp add: ann_lines_def sample_defs)
  have b: "foldl (py_add exact_arithmetic) (PyInt 0)
     (map (\<lambda>l. py_mul exact_arithmetic (ci_price (fst l)) (PyInt (ci_quantity (fst l))))
        (filter (\<lambda>l. p_farmer_id (snd l) = ''farmer-1'') ann_lines)) = PyInt 10"
    by (simp add: ann_lines_def sample_defs)
  from ann_checkout obtain created s' where
    r: "checkout_order exact_arithmetic sample_uuid4 7 market_db sample_checkout ''cart-1'' ann = (Inr created, s')"
    and e1: "map (\<lambda>ord. (o_id ord, o_farmer_id ord, o_buyer_id ord, o_status ord, o_total_amount ord)) created =
       [(''id-'', ''farmer-1'', ''buyer-1'', ''pending'', PyInt 12),
        (''id-xxx'', ''farmer-2'', ''buyer-1'', ''pending'', PyInt 5)]"
    and e2: "map (\<lambda>r. (oi_order_id r, oi_product_id r, oi_quantity r, oi_price r)) (order_items s') =
       [(''id-'', ''prod-tomato'', 2, PyInt 3), (''id-'', ''prod-beans'', 3, PyInt 2),
        (''id-xxx'', ''prod-maize'', 1, PyInt 5)]"
    by (elim exE conjE)
  have "map (\<lambda>ord. (o_id ord, o_farmer_id ord, o_total_amount ord)) created =
      map (\<lambda>q. (fst q, fst (snd q), snd (snd (snd (snd q)))))
        (map (\<lambda>ord. (o_id ord, o_farmer_id ord, o_buyer_id ord, o_status ord, o_total_amount ord)) created)"
    by (simp add: comp_def)
  then have m1: "map (\<lambda>ord. (o_id ord, o_farmer_id ord, o_total_amount ord)) created =
        [(''id-'', ''farmer-1'', PyInt 12), (''id-xxx'', ''farmer-2'', PyInt 5)]"
    using e1 by (simp only: list.map fst_conv snd_conv)
  have e: "\<exists>created s'.
      checkout_order exact_arithmetic sample_uuid4 7 market_db sample_checkout ''cart-1'' ann =
        (Inr created, s') \<and>
      map (\<lambda>ord. (o_id ord, o_farmer_id ord, o_total_amount ord)) created =
        [(''id-'', ''farmer-1'', PyInt 12), (''id-xxx'', ''farmer-2'', PyInt 5)] \<and>
      map (\<lambda>r. (oi_order_id r, oi_product_id r, oi_quantity r, oi_price r)) (order_items s') =
        [(''id-'', ''prod-tomato'', 2, PyInt 3), (''id-'', ''prod-beans'', 3, PyInt 2),
         (''id-xxx'', ''prod-maize'', 1, PyInt 5)]"
    using r m1 e2 by (intro exI conjI)
  show ?thesis
    using ann_joined a b e by (intro conjI)
qed

text \<open>
  What holds instead: the checkout prices every line at the price its product has in the
  store when the checkout runs. Take a checkout of a cart the acting user owns, with at
  least one line, each line joined to the product it refers to (\<open>lines\<close> is the list of
  these pairs, the product of a line being the row of the products table with the line's
  product id). The total of each created order is Python's sum, from 0 and in the order
  of the lines, of the product's price times the line's quantity over the lines of the
  order's farmer; the order items appended are, order after order, the lines of that
  order's farmer with the line's product id and quantity and the product's price.
\<close>

theorem checkout_prices_are_current:
  assumes cart: "filter (\<lambda>c. c_id c = cart_id \<and> c_user_id c = cu_id cu) (carts s) = c # cs"
    and lines: "joined_cart_items s cart_id = map (\<lambda>l. (fst l, Some (snd l))) lines"
    and ne: "lines \<noteq> []"
  shows "\<exists>created s' new_rows.
      checkout_order ar uuid4 now s cd cart_id cu = (Inr created, s') \<and>
      (\<forall>l \<in> set lines. find (\<lambda>p. p_id p = ci_product_id (fst l)) (products s) = Some (snd l)) \<and>
      (\<forall>ord \<in> set created.
         o_total_amount ord =
           foldl (py_add ar) (PyInt 0)
             (map (\<lambda>l. py_mul ar (p_price (snd l)) (PyInt (ci_quantity (fst l))))
                (filter (\<lambda>l. p_farmer_id (snd l) = o_farmer_id ord) lines))) \<and>
      order_items s' = order_items s @ new_rows \<and>
      map (\<lambda>r. (oi_order_id r, oi_product_id r, oi_quantity r, oi_price r)) new_rows =
        concat (map (\<lambda>ord. map (\<lambda>l. (o_id ord, ci_product_id (fst l), ci_quantity (fst l),
                                       p_price (snd l)))
                              (filter (\<lambda>l. p_farmer_id (snd l) = o_farmer_id ord) lines))
                  created)"
proof -
  from checkout_success [OF cart lines ne, of ar uuid4 now cd]
  obtain G where gr: "grouped ar G lines"
    and co: "checkout_order ar uuid4 now s cd cart_id cu =
        (Inr (map fst (planned_orders uuid4 now cd cu G)),
         set_cart_total cart_id (PyInt 0)
           (s\<lparr>orders := orders s @ map fst (planned_orders uuid4 now cd cu G),
              order_items := order_items s @ concat (map snd (planned_orders uuid4 now cd cu G)),
              products := dec_products (concat (map (\<lambda>fg. fg_items (snd fg)) G)) (products s),
              cart_items := filter (\<lambda>i. ci_cart_id i \<noteq> cart_id) (cart_items s)\<rparr>))"
    by (elim exE conjE)
  define P where "P = planned_orders uuid4 now cd cu G"
  define created where "created = map fst P"
  define new_rows where "new_rows = concat (map snd P)"
  define s' where "s' = set_cart_total cart_id (PyInt 0)
           (s\<lparr>orders := orders s @ created,
              order_items := order_items s @ new_rows,
              products := dec_products (concat (map (\<lambda>fg. fg_items (snd fg)) G)) (products s),
              cart_items := filter (\<lambda>i. ci_cart_id i \<noteq> cart_id) (cart_items s)\<rparr>)"
  have r: "checkout_order ar uuid4 now s cd cart_id cu = (Inr created, s')"
    using co by (simp add: created_def new_rows_def s'_def P_def)
  have fd: "\<forall>l \<in> set lines. find (\<lambda>p. p_id p = ci_product_id (fst l)) (products s) = Some (snd l)"
    by (intro ballI) (rule joined_line_find [OF lines])
  have mem: "map (\<lambda>r. (oi_order_id r, oi_product_id r, oi_quantity r, oi_price r)) (snd x) =
           map (\<lambda>l. (o_id (fst x), p_id (snd l), ci_quantity (fst l), p_price (snd l)))
             (filter (\<lambda>l. p_farmer_id (snd l) = o_farmer_id (fst x)) lines) \<and>
         o_total_amount (fst x) =
           foldl (py_add ar) (PyInt 0)
             (map (\<lambda>l. py_mul ar (p_price (snd l)) (PyInt (ci_quantity (fst l))))
                (filter (\<lambda>l. p_farmer_id (snd l) = o_farmer_id (fst x)) lines))"
    if "x \<in> set P" for x
    using planned_order_of_group [OF gr, of "fst x" "snd x" uuid4 now cd cu] that
    by (simp add: P_def)
  have tot: "\<forall>ord \<in> set created.
         o_total_amount ord =
           foldl (py_add ar) (PyInt 0)
             (map (\<lambda>l. py_mul ar (p_price (snd l)) (PyInt (ci_quantity (fst l))))
                (filter (\<lambda>l. p_farmer_id (snd l) = o_farmer_id ord) lines))"
  proof
    fix ord assume "ord \<in> set created"
    then obtain x where x: "x \<in> set P" and o: "ord = fst x"
      by (auto simp: created_def)
    from mem [OF x] show "o_total_amount ord =
           foldl (py_add ar) (PyInt 0)
             (map (\<lambda>l. py_mul ar (p_price (snd l)) (PyInt (ci_quantity (fst l))))
                (filter (\<lambda>l. p_farmer_id (snd l) = o_farmer_id ord) lines))"
      unfolding o by (rule conjunct2)
  qed
  have four: "map (\<lambda>r. (oi_order_id r, oi_product_id r, oi_quantity r, oi_price r)) (snd x) =
      map (\<lambda>l. (o_id (fst x), ci_product_id (fst l), ci_quantity (fst l), p_price (snd l)))
         (filter (\<lambda>l. p_farmer_id (snd l) = o_farmer_id (fst x)) lines)"
    if x: "x \<in> set P" for x
  proof -
    have "map (\<lambda>r. (oi_order_id r, oi_product_id r, oi_quantity r, oi_price r)) (snd x) =
        map (\<lambda>l. (o_id (fst x), p_id (snd l), ci_quantity (fst l), p_price (snd l)))
          (filter (\<lambda>l. p_farmer_id (snd l) = o_farmer_id (fst x)) lines)"
      using mem [OF x] by (rule conjunct1)
    also have "\<dots> = map (\<lambda>l. (o_id (fst x), ci_product_id (fst l), ci_quantity (fst l), p_price (snd l)))
        (filter (\<lambda>l. p_farmer_id (snd l) = o_farmer_id (fst x)) lines)"
      by (rule map_cong) (auto simp: joined_line_id [OF lines])
    finally show ?thesis .
  qed
  have rows: "map (\<lambda>r. (oi_order_id r, oi_product_id r, oi_quantity r, oi_price r)) new_rows =
      concat (map (\<lambda>ord. map (\<lambda>l. (o_id ord, ci_product_id (fst l), ci_quantity (fst l), p_price (snd l)))
                            (filter (\<lambda>l. p_farmer_id (snd l) = o_farmer_id ord) lines))
                created)"
  proof -
    have "map (\<lambda>r. (oi_order_id r, oi_product_id r, oi_quantity r, oi_price r)) new_rows =
        concat (map (\<lambda>x. map (\<lambda>r. (oi_order_id r, oi_product_id r, oi_quantity r, oi_price r)) (snd x)) P)"
      by (simp add: new_rows_def map_concat comp_def)
    also have "\<dots> = concat (map (\<lambda>x. map (\<lambda>l. (o_id (fst x), ci_product_id (fst l), ci_quantity (fst l), p_price (snd l)))
         (filter (\<lambda>l. p_farmer_id (snd l) = o_farmer_id (fst x)) lines)) P)"
      by (rule concat_map_cong) (rule four)
    also have "\<dots> = concat (map (\<lambda>ord. map (\<lambda>l. (o_id ord, ci_product_id (fst l), ci_quantity (fst l), p_price (snd l)))
                            (filter (\<lambda>l. p_farmer_id (snd l) = o_farmer_id ord) lines))
                created)"
      by (simp add: created_def comp_def)
    finally show ?thesis .
  qed
  have oi: "order_items s' = order_items s @ new_rows"
    by (simp add: s'_def)
  show ?thesis
    apply (rule exI [of _ created])
    apply (rule exI [of _ s'])
    apply (rule exI [of _ new_rows])
    apply (intro conjI)
        apply (rule r)
       apply (rule fd)
      apply (rule tot)
     apply (rule oi)
    apply (rule rows)
    done
qed

text \<open>
  Ann's checkout on the sample market: the products of her lines are the rows of the
  store, the totals are 3 * 2 + 2 * 3 = 12 and 5 * 1 = 5, and the tomato item carries
  the price 3 of the store.
\<close>

theorem checkout_prices_are_current_witness:
  "filter (\<lambda>c. c_id c = ''cart-1'' \<and> c_user_id c = cu_id ann) (carts market_db) =
     [\<lparr>c_id = ''cart-1'', c_user_id = ''buyer-1'', c_total = PyInt 99\<rparr>] \<and>
   joined_cart_items market_db ''cart-1'' = map (\<lambda>l. (fst l, Some (snd l))) ann_lines \<and>
   ann_lines \<noteq> [] \<and>
   map (\<lambda>l. (ci_product_id (fst l), ci_quantity (fst l), p_price (snd l), p_farmer_id (snd l))) ann_lines =
     [(''prod-tomato'', 2, PyInt 3, ''farmer-1''), (''prod-maize'', 1, PyInt 5, ''farmer-2''),
      (''prod-beans'', 3, PyInt 2, ''farmer-1'')] \<and>
   (\<exists>created s'.
      checkout_order exact_arithmetic sample_uuid4 7 market_db sample_checkout ''cart-1'' ann =
        (Inr created, s') \<and>
      map o_farmer_id created = [''farmer-1'', ''farmer-2''] \<and>
      map o_total_amount created = [PyInt 12, PyInt 5] \<and>
      map (\<lambda>r. (oi_order_id r, oi_product_id r, oi_quantity r, oi_price r)) (order_items s') =
        [(''id-'', ''prod-tomato'', 2, PyInt 3), (''id-'', ''prod-beans'', 3, PyInt 2),
         (''id-xxx'', ''prod-maize'', 1, PyInt 5)])"
proof -
  define F where "F = (\<lambda>f. foldl (py_add exact_arithmetic) (PyInt 0)
             (map (\<lambda>l. py_mul exact_arithmetic (p_price (snd l)) (PyInt (ci_quantity (fst l))))
                (filter (\<lambda>l. p_farmer_id (snd l) = f) ann_lines)))"
  from checkout_prices_are_current
      [OF ann_cart ann_joined ann_lines_ne, of exact_arithmetic sample_uuid4 7 sample_checkout]
  obtain created s' new_rows where
    r: "checkout_order exact_arithmetic sample_uuid4 7 market_db sample_checkout ''cart-1'' ann = (Inr created, s')"
    and tot: "\<forall>ord \<in> set created. o_total_amount ord = F (o_farmer_id ord)"
    and oi: "order_items s' = order_items market_db @ new_rows"
    and rows: "map (\<lambda>r. (oi_order_id r, oi_product_id r, oi_quantity r, oi_price r)) new_rows =
        concat (map (\<lambda>ord. map (\<lambda>l. (o_id ord, ci_product_id (fst l), ci_quantity (fst l),
                                       p_price (snd l)))
                              (filter (\<lambda>l. p_farmer_id (snd l) = o_farmer_id ord) ann_lines))
                  created)"
    unfolding F_def by (elim exE conjE)
  from ann_checkout obtain created2 s2 where
    r2: "checkout_order exact_arithmetic sample_uuid4 7 market_db sample_checkout ''cart-1'' ann = (Inr created2, s2)"
    and e1: "map (\<lambda>ord. (o_id ord, o_farmer_id ord, o_buyer_id ord, o_status ord, o_total_amount ord)) created2 =
       [(''id-'', ''farmer-1'', ''buyer-1'', ''pending'', PyInt 12),
        (''id-xxx'', ''farmer-2'', ''buyer-1'', ''pending'', PyInt 5)]"
    by (elim exE conjE)
  from r r2 have same: "created2 = created" by simp
  have "map (\<lambda>ord. (o_id ord, o_farmer_id ord)) created =
      map (\<lambda>q. (fst q, fst (snd q)))
        (map (\<lambda>ord. (o_id ord, o_farmer_id ord, o_buyer_id ord, o_status ord, o_total_amount ord)) created)"
    by (simp add: comp_def)
  then have ids: "map (\<lambda>ord. (o_id ord, o_farmer_id ord)) created =
      [(''id-'', ''farmer-1''), (''id-xxx'', ''farmer-2'')]"
    using e1 by (simp only: same list.map fst_conv snd_conv)
  have "map o_farmer_id created = map snd (map (\<lambda>ord. (o_id ord, o_farmer_id ord)) created)"
    by (simp add: comp_def)
  then have fs: "map o_farmer_id created = [''farmer-1'', ''farmer-2'']"
    by (simp only: ids list.map snd_conv)
  have "map o_total_amount created = map (\<lambda>ord. F (o_farmer_id ord)) created"
    using tot by (intro map_cong refl) simp
  also have "\<dots> = map F (map o_farmer_id created)"
    by (simp add: comp_def)
  also have "\<dots> = [PyInt 12, PyInt 5]"
    unfolding fs by (simp add: F_def ann_lines_def sample_defs)
  finally have ts: "map o_total_amount created = [PyInt 12, PyInt 5]" .
  have "concat (map (\<lambda>ord. map (\<lambda>l. (o_id ord, ci_product_id (fst l), ci_quantity (fst l),
                                       p_price (snd l)))
                              (filter (\<lambda>l. p_farmer_id (snd l) = o_farmer_id ord) ann_lines))
                  created) =
      concat (map (\<lambda>q. map (\<lambda>l. (fst q, ci_product_id (fst l), ci_quantity (fst l),
                                       p_price (snd l)))
                              (filter (\<lambda>l. p_farmer_id (snd l) = snd q) ann_lines))
                  (map (\<lambda>ord. (o_id ord, o_farmer_id ord)) created))"
    by (simp add: comp_def)
  also have "\<dots> = [(''id-'', ''prod-tomato'', 2, PyInt 3), (''id-'', ''prod-beans'', 3, PyInt 2),
         (''id-xxx'', ''prod-maize'', 1, PyInt 5)]"
    unfolding ids by (simp add: ann_lines_def sample_defs)
  finally have rs: "map (\<lambda>r. (oi_order_id r, oi_product_id r, oi_quantity r, oi_price r)) (order_items s') =
        [(''id-'', ''prod-tomato'', 2, PyInt 3), (''id-'', ''prod-beans'', 3, PyInt 2),
         (''id-xxx'', ''prod-maize'', 1, PyInt 5)]"
    using rows by (simp add: oi market_db_def)
  have a: "map (\<lambda>l. (ci_product_id (fst l), ci_quantity (fst l), p_price (snd l), p_farmer_id (snd l))) ann_lines =
     [(''prod-tomato'', 2, PyInt 3, ''farmer-1''), (''prod-maize'', 1, PyInt 5, ''farmer-2''),
      (''prod-beans'', 3, PyInt 2, ''farmer-1'')]"
    by (simp add: ann_lines_def sample_defs)
  have e: "\<exists>created s'.
      checkout_order exact_arithmetic sample_uuid4 7 market_db sample_checkout ''cart-1'' ann =
        (Inr created, s') \<and>
      map o_farmer_id created = [''farmer-1'', ''farmer-2''] \<and>
      map o_total_amount created = [PyInt 12, PyInt 5] \<and>
      map (\<lambda>r. (oi_order_id r, oi_product_id r, oi_quantity r, oi_price r)) (order_items s') =
        [(''id-'', ''prod-tomato'', 2, PyInt 3), (''id-'', ''prod-beans'', 3, PyInt 2),
         (''id-xxx'', ''prod-maize'', 1, PyInt 5)]"
    using r fs ts rs by (intro exI conjI)
  show ?thesis
    using ann_cart ann_joined ann_lines_ne a e by (intro conjI)
qed

end
